theory Spec2Isabelle
  imports Complex_Main "HOL-Library.Word"
begin

section \<open>Numbers\<close>

text \<open>
  The price predictor computes with JavaScript numbers. A finite number is modelled by
  the real it denotes (arithmetic on finite values is taken as exact: no rounding, no
  overflow), and the three special values are kept, because the divisions of the source
  are unguarded and produce them: \<open>x / 0\<close> is \<open>NaN\<close> for \<open>x = 0\<close> and an infinity
  otherwise. No divisor of the source is a negative zero (every one is a sum started at
  \<open>+0\<close>, a count or a parsed price replaced by \<open>0\<close> when falsy), so zero carries no sign.
\<close>

datatype jsnum = Fin real | PInf | NInf | NaN

fun jneg :: "jsnum \<Rightarrow> jsnum" where
  "jneg (Fin a) = Fin (- a)"
| "jneg PInf = NInf"
| "jneg NInf = PInf"
| "jneg NaN = NaN"

fun jadd :: "jsnum \<Rightarrow> jsnum \<Rightarrow> jsnum" where
  "jadd (Fin a) (Fin b) = Fin (a + b)"
| "jadd (Fin a) PInf = PInf"
| "jadd (Fin a) NInf = NInf"
| "jadd PInf (Fin b) = PInf"
| "jadd PInf PInf = PInf"
| "jadd PInf NInf = NaN"
| "jadd NInf (Fin b) = NInf"
| "jadd NInf NInf = NInf"
| "jadd NInf PInf = NaN"
| "jadd NaN y = NaN"
| "jadd (Fin a) NaN = NaN"
| "jadd PInf NaN = NaN"
| "jadd NInf NaN = NaN"

definition jsub :: "jsnum \<Rightarrow> jsnum \<Rightarrow> jsnum" where
  "jsub x y = jadd x (jneg y)"

text \<open>The sign of a product or quotient with an infinite operand.\<close>

definition signed_inf :: "bool \<Rightarrow> jsnum" where
  "signed_inf positive = (if positive then PInf else NInf)"

fun jmul :: "jsnum \<Rightarrow> jsnum \<Rightarrow> jsnum" where
  "jmul (Fin a) (Fin b) = Fin (a * b)"
| "jmul (Fin a) PInf = (if a = 0 then NaN else signed_inf (0 < a))"
| "jmul (Fin a) NInf = (if a = 0 then NaN else signed_inf (a < 0))"
| "jmul PInf (Fin b) = (if b = 0 then NaN else signed_inf (0 < b))"
| "jmul NInf (Fin b) = (if b = 0 then NaN else signed_inf (b < 0))"
| "jmul PInf PInf = PInf"
| "jmul PInf NInf = NInf"
| "jmul NInf PInf = NInf"
| "jmul NInf NInf = PInf"
| "jmul NaN y = NaN"
| "jmul (Fin a) NaN = NaN"
| "jmul PInf NaN = NaN"
| "jmul NInf NaN = NaN"

fun jdiv :: "jsnum \<Rightarrow> jsnum \<Rightarrow> jsnum" where
  "jdiv (Fin a) (Fin b) =
     (if b = 0 then (if a = 0 then NaN else signed_inf (0 < a)) else Fin (a / b))"
| "jdiv (Fin a) PInf = Fin 0"
| "jdiv (Fin a) NInf = Fin 0"
| "jdiv PInf (Fin b) = signed_inf (0 \<le> b)"
| "jdiv NInf (Fin b) = signed_inf (b < 0)"
| "jdiv PInf PInf = NaN"
| "jdiv PInf NInf = NaN"
| "jdiv NInf PInf = NaN"
| "jdiv NInf NInf = NaN"
| "jdiv NaN y = NaN"
| "jdiv (Fin a) NaN = NaN"
| "jdiv PInf NaN = NaN"
| "jdiv NInf NaN = NaN"

text \<open>\<open>x < y\<close> and \<open>x > y\<close>: false as soon as one side is \<open>NaN\<close>.\<close>

fun jlt :: "jsnum \<Rightarrow> jsnum \<Rightarrow> bool" where
  "jlt (Fin a) (Fin b) = (a < b)"
| "jlt (Fin a) PInf = True"
| "jlt NInf (Fin b) = True"
| "jlt NInf PInf = True"
| "jlt x y = False"

definition jgt :: "jsnum \<Rightarrow> jsnum \<Rightarrow> bool" where
  "jgt x y = jlt y x"

definition jle :: "jsnum \<Rightarrow> jsnum \<Rightarrow> bool" where
  "jle x y = (jlt x y \<or> (x \<noteq> NaN \<and> x = y))"

text \<open>\<open>Math.round\<close> rounds to the nearest integer, a half towards \<open>+\<infinity>\<close>.\<close>

definition round_half_up :: "real \<Rightarrow> int" where
  "round_half_up x = \<lfloor>x + 1 / 2\<rfloor>"

fun jround :: "jsnum \<Rightarrow> jsnum" where
  "jround (Fin a) = Fin (of_int (round_half_up a))"
| "jround x = x"

fun jsqrt :: "jsnum \<Rightarrow> jsnum" where
  "jsqrt (Fin a) = (if a < 0 then NaN else Fin (sqrt a))"
| "jsqrt PInf = PInf"
| "jsqrt NInf = NaN"
| "jsqrt NaN = NaN"

text \<open>\<open>Math.max(x, y)\<close>: \<open>NaN\<close> when an argument is \<open>NaN\<close>.\<close>

definition jmax :: "jsnum \<Rightarrow> jsnum \<Rightarrow> jsnum" where
  "jmax x y = (if x = NaN \<or> y = NaN then NaN else if jlt x y then y else x)"

text \<open>\<open>xs.reduce((a, b) => a + b, 0)\<close>.\<close>

definition jsum :: "jsnum list \<Rightarrow> jsnum" where
  "jsum xs = foldl jadd (Fin 0) xs"

text \<open>\<open>x || 0\<close> on a number: \<open>NaN\<close> and \<open>0\<close> are falsy.\<close>

definition or_zero :: "jsnum \<Rightarrow> jsnum" where
  "or_zero x = (if x = NaN \<or> x = Fin 0 then Fin 0 else x)"

text \<open>\<open>xs.slice(-k)\<close> and \<open>xs.slice(0, k)\<close> for an integer \<open>k\<close>; a negative start counts from
  the end, and \<open>slice(-0)\<close> is \<open>slice(0)\<close>, the whole array.\<close>

definition slice_from :: "int \<Rightarrow> 'a list \<Rightarrow> 'a list" where
  "slice_from start xs =
     (if start < 0 then drop (nat (int (length xs) + start)) xs else drop (nat start) xs)"

definition slice_last :: "int \<Rightarrow> 'a list \<Rightarrow> 'a list" where
  "slice_last k xs = slice_from (- k) xs"

section \<open>Data model\<close>

text \<open>
  A time value is a number of milliseconds since the epoch, in UTC. A calendar date (the
  \<open>YYYY-MM-DD\<close> string that \<open>toISOString().split('T')[0]\<close> gives) is the number of its day
  in UTC. A date object holds a time value or is invalid: \<open>TimeClip\<close> makes it invalid
  once the time value leaves the range of a hundred million days around the epoch, and
  \<open>toISOString\<close> throws a \<open>RangeError\<close> on an invalid date.
\<close>

definition msPerDay :: int where
  "msPerDay = 86400000"

definition maxTime :: int where
  "maxTime = 8640000000000000"

definition TimeClip :: "int \<Rightarrow> int option" where
  "TimeClip t = (if \<bar>t\<bar> \<le> maxTime then Some t else None)"

type_synonym day = int

record PriceData =
  commodity :: string
  category :: string
  minPrice :: jsnum
  maxPrice :: jsnum
  modalPrice :: jsnum
  date :: day
  market :: string
  source :: string

datatype trend = Up | Down | Stable

record PriceHistory =
  dates :: "day list"
  prices :: "jsnum list"
  trend :: trend
  changePercent :: jsnum

record cache_entry =
  data :: "PriceData list"
  timestamp :: int

type_synonym cache = "string \<rightharpoonup> cache_entry"

text \<open>
  One record of the upstream payload, after \<open>parseFloat\<close> and the parsing of the date:
  a price field holds what \<open>parseFloat\<close> returns (\<open>NaN\<close> for a missing or unreadable
  field), a text field is \<open>None\<close> when missing.
\<close>

record raw_record =
  Commodity :: "string option"
  Min_Price :: jsnum
  Max_Price :: jsnum
  Modal_Price :: jsnum
  Price_Date :: "day option"
  Market_Name :: "string option"

text \<open>
  What the network call does: \<open>fetch\<close> rejects; the response is not \<open>ok\<close>;
  \<open>response.json()\<close> rejects; the payload has no usable \<open>records\<close> array (the parser
  throws inside its own \<open>try\<close>); or it has a list of records (empty when \<open>records\<close> is
  missing).
\<close>

datatype payload = Malformed | RecordList "raw_record list"

datatype upstream = NetworkError | NotOk | InvalidJson | Json payload

datatype error = FetchRejected | FailedToFetch | JsonRejected | InsufficientData | RangeError

text \<open>
  What a call reads from its environment: the configuration of the source, what the
  network call would do, the time \<open>Date.now()\<close> shows when the cache is looked up
  (\<open>t_get\<close>) and when an entry is saved (\<open>t_put\<close>), the month \<open>new Date().getMonth()\<close> gives
  when the insights are written, and the time zone of the host: the offset of local
  time from UTC, in milliseconds, at a UTC time value (\<open>zone_utc\<close>) and at a local one
  (\<open>zone_local\<close>). An offset is a signed 28-bit number, which allows more than 37 hours
  either way.

  The state a call changes: the cache, the stream of values \<open>Math.random()\<close> is still to
  return, and the stream of times \<open>new Date()\<close> is still to show, one for each
  evaluation. A time shown by the clock is an unsigned 48-bit number of milliseconds: a
  time from 1970 to beyond the year 10000, well inside the range of a date.
\<close>

record env =
  enabled :: bool
  apiKey :: string
  upstream :: upstream
  t_get :: int
  t_put :: int
  zone_utc :: "int \<Rightarrow> 28 word"
  zone_local :: "int \<Rightarrow> 28 word"
  month :: nat

record world =
  cache :: cache
  rnd :: "nat \<Rightarrow> real"
  clock :: "nat \<Rightarrow> 48 word"

definition consume :: "nat \<Rightarrow> world \<Rightarrow> world" where
  "consume k w = w\<lparr>rnd := (\<lambda>i. rnd w (i + k))\<rparr>"

definition tick :: "nat \<Rightarrow> world \<Rightarrow> world" where
  "tick k w = w\<lparr>clock := (\<lambda>i. clock w (i + k))\<rparr>"

text \<open>An asynchronous call resolves with a value or rejects with an error; either way
  it leaves a state behind.\<close>

type_synonym 'a outcome = "(error \<times> world) + ('a \<times> world)"

text \<open>
  \<open>const date = new Date(); date.setDate(date.getDate() + i)\<close>, with the clock at its
  \<open>k\<close>-th reading: the time is taken to local time, moved by \<open>i\<close> days there, taken back
  to UTC with the offset of the new local time, and clipped. \<open>date_at\<close> is what
  \<open>date.toISOString().split('T')[0]\<close> then gives or throws.
\<close>

definition moved_time :: "env \<Rightarrow> int \<Rightarrow> int \<Rightarrow> int" where
  "moved_time e t i =
     (let local = t + sint (zone_utc e t);
          moved = local + i * msPerDay
      in moved - sint (zone_local e moved))"

definition setDate_plus :: "env \<Rightarrow> int \<Rightarrow> int \<Rightarrow> int option" where
  "setDate_plus e t i = TimeClip (moved_time e t i)"

definition date_at :: "env \<Rightarrow> world \<Rightarrow> nat \<Rightarrow> int \<Rightarrow> error + day" where
  "date_at e w k i =
     (case setDate_plus e (uint (clock w k)) i of
        None \<Rightarrow> Inl RangeError
      | Some t \<Rightarrow> Inr (t div msPerDay))"

text \<open>
  A loop that pushes one element per iteration and whose body can throw: the elements
  pushed, or the error of the first iteration that throws together with the number of
  iterations completed before it.
\<close>

fun loop :: "('i \<Rightarrow> error + 'a) \<Rightarrow> 'i list \<Rightarrow> (error \<times> nat) + 'a list" where
  "loop body [] = Inr []"
| "loop body (i # is) =
     (case body i of
        Inl err \<Rightarrow> Inl (err, 0)
      | Inr x \<Rightarrow>
          (case loop body is of
             Inl (err, k) \<Rightarrow> Inl (err, Suc k)
           | Inr xs \<Rightarrow> Inr (x # xs)))"


section \<open>The price scraper (government-scraper.ts)\<close>

subsection \<open>Base prices\<close>

text \<open>\<open>category.toLowerCase()\<close>, on ASCII letters.\<close>

definition lower_char :: "char \<Rightarrow> char" where
  "lower_char c =
     (case map_of (zip ''ABCDEFGHIJKLMNOPQRSTUVWXYZ'' ''abcdefghijklmnopqrstuvwxyz'') c of
        Some d \<Rightarrow> d
      | None \<Rightarrow> c)"

definition toLowerCase :: "string \<Rightarrow> string" where
  "toLowerCase s = map lower_char s"

text \<open>
  \<open>basePrices[key] || 500\<close> on an object literal. A key the literal does not have is
  looked up in \<open>Object.prototype\<close>: of its properties only \<open>constructor\<close> and \<open>__proto__\<close>
  are lower-case names, both are truthy and both are \<open>NaN\<close> in arithmetic.
\<close>

definition inherited_keys :: "string list" where
  "inherited_keys = [''constructor'', ''__proto__'']"

definition base_price :: "(string \<times> real) list \<Rightarrow> string \<Rightarrow> jsnum" where
  "base_price basePrices cat =
     (case map_of basePrices (toLowerCase cat) of
        Some v \<Rightarrow> (if v = 0 then Fin 500 else Fin v)
      | None \<Rightarrow> (if toLowerCase cat \<in> set inherited_keys then NaN else Fin 500))"

definition basePrices_fallback :: "(string \<times> real) list" where
  "basePrices_fallback =
     [(''textiles'', 2000), (''spices'', 150), (''handicrafts'', 500),
      (''food products'', 100), (''pottery'', 300), (''jewelry'', 1500),
      (''home decor'', 800)]"

definition basePrices_mock :: "(string \<times> real) list" where
  "basePrices_mock =
     [(''textiles'', 2000), (''spices'', 150), (''handicrafts'', 500),
      (''food products'', 100), (''pottery'', 300)]"

subsection \<open>Cache\<close>

definition cacheExpiry :: int where
  "cacheExpiry = 3600000"

definition cacheKey :: "string \<Rightarrow> string" where
  "cacheKey cat = ''agmarknet:'' @ cat"

definition getFromCache :: "int \<Rightarrow> cache \<Rightarrow> string \<Rightarrow> PriceData list option" where
  "getFromCache now c key =
     (case c key of
        Some cached \<Rightarrow> (if now - timestamp cached < cacheExpiry then Some (data cached) else None)
      | None \<Rightarrow> None)"

definition saveToCache :: "int \<Rightarrow> cache \<Rightarrow> string \<Rightarrow> PriceData list \<Rightarrow> cache" where
  "saveToCache now c key d = c(key \<mapsto> \<lparr>data = d, timestamp = now\<rparr>)"

subsection \<open>Parsing and the simulated observations\<close>

text \<open>\<open>s || dflt\<close> on a text field: a missing field and the empty string are falsy.\<close>

definition or_text :: "string option \<Rightarrow> string \<Rightarrow> string" where
  "or_text s dflt = (case s of None \<Rightarrow> dflt | Some t \<Rightarrow> (if t = [] then dflt else t))"

text \<open>
  A record without a date gets \<open>new Date().toISOString()\<close>, a reading of the clock;
  \<open>j\<close> counts the readings made for the records before it.
\<close>

fun parse_records :: "world \<Rightarrow> string \<Rightarrow> nat \<Rightarrow> raw_record list \<Rightarrow> PriceData list" where
  "parse_records w cat j [] = []"
| "parse_records w cat j (r # rs) =
     \<lparr>commodity = or_text (Commodity r) ''Unknown'',
      category = cat,
      minPrice = or_zero (Min_Price r),
      maxPrice = or_zero (Max_Price r),
      modalPrice = or_zero (Modal_Price r),
      date = (case Price_Date r of Some d \<Rightarrow> d | None \<Rightarrow> uint (clock w j) div msPerDay),
      market = or_text (Market_Name r) ''Various Markets'',
      source = ''AGMARKNET''\<rparr>
     # parse_records w cat (case Price_Date r of Some d \<Rightarrow> j | None \<Rightarrow> Suc j) rs"

definition undated :: "raw_record list \<Rightarrow> nat" where
  "undated rs = length (filter (\<lambda>r. Price_Date r = None) rs)"

definition parseAGMARKNETResponse :: "world \<Rightarrow> payload \<Rightarrow> string \<Rightarrow> PriceData list \<times> world" where
  "parseAGMARKNETResponse w p cat =
     (case p of
        Malformed \<Rightarrow> ([], w)
      | RecordList records \<Rightarrow> (parse_records w cat 0 records, tick (undated records) w))"

text \<open>
  Thirty simulated observations, today first. An iteration reads the clock, draws one
  random value and then prints the date, which can throw; \<open>simulated_point\<close> is the
  observation it pushes once the date \<open>d\<close> is printed.
\<close>

definition simulated_point :: "day \<Rightarrow> world \<Rightarrow> string \<Rightarrow> jsnum \<Rightarrow> nat \<Rightarrow> PriceData" where
  "simulated_point d w cat basePrice i =
     (let variation = (rnd w i - 0.5) * 0.2;
          seasonality = sin (real i / 30 * pi) * 0.1;
          trnd = real i * 0.002;
          modal = jround (jmul basePrice (Fin (1 + variation + seasonality + trnd)))
      in \<lparr>commodity = cat,
          category = cat,
          minPrice = jround (jmul modal (Fin 0.9)),
          maxPrice = jround (jmul modal (Fin 1.1)),
          modalPrice = modal,
          date = d,
          market = ''Multiple Markets'',
          source = ''Simulated Data''\<rparr>)"

definition getFallbackPrices :: "env \<Rightarrow> world \<Rightarrow> string \<Rightarrow> PriceData list outcome" where
  "getFallbackPrices e w cat =
     (let basePrice = base_price basePrices_fallback cat in
      case loop (\<lambda>i. case date_at e w i (- int i) of
                        Inl err \<Rightarrow> Inl err
                      | Inr d \<Rightarrow> Inr (simulated_point d w cat basePrice i)) [0..<30] of
        Inr ps \<Rightarrow> Inr (ps, tick 30 (consume 30 w))
      | Inl (err, k) \<Rightarrow> Inl (err, tick (Suc k) (consume (Suc k) w)))"

subsection \<open>fetchAGMARKNETPrices\<close>

text \<open>An array that \<open>getFallbackPrices\<close> has just built is not the one the cache holds.\<close>

definition unaliased :: "'a outcome \<Rightarrow> ('a \<times> bool) outcome" where
  "unaliased r = (case r of Inr (ps, w) \<Rightarrow> Inr ((ps, False), w) | Inl err \<Rightarrow> Inl err)"

text \<open>
  The body of the \<open>try\<close>: the two configuration checks return the simulated
  observations; the network call, the status check and \<open>response.json()\<close> can throw; a
  parsed payload is saved in the cache and returned. The commodity code only goes into
  the request's URL. The Boolean of the result says whether the array returned is the
  one the cache holds. The \<open>catch\<close> returns the simulated observations, and what that
  call throws is not caught.
\<close>

definition fetch_body :: "env \<Rightarrow> world \<Rightarrow> string \<Rightarrow> (PriceData list \<times> bool) outcome" where
  "fetch_body e w cat =
     (if \<not> enabled e then unaliased (getFallbackPrices e w cat)
      else if apiKey e = [] then unaliased (getFallbackPrices e w cat)
      else
        (case upstream e of
           NetworkError \<Rightarrow> Inl (FetchRejected, w)
         | NotOk \<Rightarrow> Inl (FailedToFetch, w)
         | InvalidJson \<Rightarrow> Inl (JsonRejected, w)
         | Json p \<Rightarrow>
             (let (ps, w1) = parseAGMARKNETResponse w p cat
              in Inr ((ps, True),
                      w1\<lparr>cache := saveToCache (t_put e) (cache w1) (cacheKey cat) ps\<rparr>))))"

definition fetchAGMARKNETPrices ::
  "env \<Rightarrow> world \<Rightarrow> string \<Rightarrow> (PriceData list \<times> bool) outcome" where
  "fetchAGMARKNETPrices e w cat =
     (case getFromCache (t_get e) (cache w) (cacheKey cat) of
        Some cached \<Rightarrow> Inr ((cached, True), w)
      | None \<Rightarrow>
          (case fetch_body e w cat of
             Inr r \<Rightarrow> Inr r
           | Inl (err, w1) \<Rightarrow> unaliased (getFallbackPrices e w1 cat)))"

subsection \<open>fetchPriceHistory\<close>

text \<open>
  The comparison of the recent and the old average, written out twice in the source
  (in \<open>fetchPriceHistory\<close> and in \<open>generateMockHistory\<close>): both sums are divided by 7,
  the change is divided by the old average with no check of it, and the change
  returned is rounded to two decimals.
\<close>

definition trend_of_change :: "jsnum \<Rightarrow> trend" where
  "trend_of_change cp = (if jgt cp (Fin 5) then Up else if jlt cp (Fin (- 5)) then Down else Stable)"

definition round2 :: "jsnum \<Rightarrow> jsnum" where
  "round2 cp = jdiv (jround (jmul cp (Fin 100))) (Fin 100)"

definition recentAvg :: "jsnum list \<Rightarrow> jsnum" where
  "recentAvg priceValues = jdiv (jsum (slice_last 7 priceValues)) (Fin 7)"

definition oldAvg :: "jsnum list \<Rightarrow> jsnum" where
  "oldAvg priceValues = jdiv (jsum (take 7 priceValues)) (Fin 7)"

definition change_of :: "jsnum list \<Rightarrow> jsnum" where
  "change_of priceValues =
     jmul (jdiv (jsub (recentAvg priceValues) (oldAvg priceValues)) (oldAvg priceValues)) (Fin 100)"

text \<open>
  The simulated history. The loop runs from \<open>i = days\<close> down to \<open>i = 0\<close>; step \<open>k\<close> is
  the iteration \<open>i = days - k\<close>. An iteration reads the clock, prints the date, which
  can throw, and then draws one random value for the price (\<open>mock_price\<close>).
\<close>

definition mock_price :: "world \<Rightarrow> jsnum \<Rightarrow> int \<Rightarrow> nat \<Rightarrow> jsnum" where
  "mock_price w basePrice days k =
     (let i = days - int k;
          variation = (rnd w k - 0.5) * 0.15;
          seasonality = sin (real_of_int i / 30 * pi) * 0.08;
          trnd = real_of_int i * 0.001
      in jround (jmul basePrice (Fin (1 + variation + seasonality + trnd))))"

definition generateMockHistory :: "env \<Rightarrow> world \<Rightarrow> string \<Rightarrow> int \<Rightarrow> PriceHistory outcome" where
  "generateMockHistory e w cat days =
     (let basePrice = base_price basePrices_mock cat in
      case loop (\<lambda>k. case date_at e w k (- (days - int k)) of
                        Inl err \<Rightarrow> Inl err
                      | Inr d \<Rightarrow> Inr (d, mock_price w basePrice days k))
             [0..<nat (days + 1)] of
        Inr points \<Rightarrow>
          (let changePct = change_of (map snd points)
           in Inr (\<lparr>dates = map fst points, prices = map snd points,
                     trend = trend_of_change changePct,
                     changePercent = round2 changePct\<rparr>,
                   tick (nat (days + 1)) (consume (nat (days + 1)) w)))
      | Inl (err, k) \<Rightarrow> Inl (err, tick (Suc k) (consume k w)))"

text \<open>
  \<open>prices.sort(...)\<close> sorts the array in place, by date and stably; when the array is
  the one held by the cache, the cache holds the sorted array afterwards.
\<close>

definition sort_in_place :: "bool \<Rightarrow> string \<Rightarrow> PriceData list \<Rightarrow> world \<Rightarrow> world" where
  "sort_in_place aliased key arr w =
     (if aliased then
        (case cache w key of
           Some ent \<Rightarrow> w\<lparr>cache := (cache w)(key \<mapsto> ent\<lparr>data := arr\<rparr>)\<rparr>
         | None \<Rightarrow> w)
      else w)"

text \<open>
  The body of the \<open>try\<close> and the function: what \<open>generateMockHistory\<close> throws in the
  \<open>try\<close> is caught, what it throws in the \<open>catch\<close> rejects the call.
\<close>

definition history_body :: "env \<Rightarrow> world \<Rightarrow> string \<Rightarrow> int \<Rightarrow> PriceHistory outcome" where
  "history_body e w cat days =
     (case fetchAGMARKNETPrices e w cat of
        Inl err \<Rightarrow> Inl err
      | Inr ((ps, aliased), w1) \<Rightarrow>
          (if length ps = 0 then generateMockHistory e w1 cat days
           else
             (let arr = sort_key date ps;
                  w2 = sort_in_place aliased (cacheKey cat) arr w1;
                  sortedPrices = slice_last days arr;
                  ds = map date sortedPrices;
                  priceValues = map modalPrice sortedPrices;
                  changePct = change_of priceValues
              in Inr (\<lparr>dates = ds, prices = priceValues, trend = trend_of_change changePct,
                       changePercent = round2 changePct\<rparr>, w2))))"

definition fetchPriceHistory :: "env \<Rightarrow> world \<Rightarrow> string \<Rightarrow> int \<Rightarrow> PriceHistory outcome" where
  "fetchPriceHistory e w cat days =
     (case history_body e w cat days of
        Inr r \<Rightarrow> Inr r
      | Inl (err, w1) \<Rightarrow> generateMockHistory e w1 cat days)"


section \<open>The forecasting model (forecasting-model.ts)\<close>

datatype confidence = Low | Medium | High

record prediction =
  pdate :: day
  predictedPrice :: jsnum
  confidence :: confidence
  lowerBound :: jsnum
  upperBound :: jsnum

text \<open>The insights are sentences built from a few values; a sentence is modelled by its
  kind and the values it prints.\<close>

datatype insight =
    TrendingUpward jsnum
  | TrendingDownward jsnum
  | PricesStable
  | ForecastIncrease
  | ForecastDecrease
  | FestivalSeason string
  | BasedOnDays nat
  | UsingSimulatedData
  | ConnectRealSources
  | ConsiderMarketConditions

record ForecastResult =
  predictions :: "prediction list"
  currentPrice :: jsnum
  ftrend :: trend
  seasonality :: string
  insights :: "insight list"

text \<open>\<open>xs[xs.length - 1]\<close> is \<open>undefined\<close> on an empty array, \<open>NaN\<close> in arithmetic.\<close>

definition last_elem :: "jsnum list \<Rightarrow> jsnum" where
  "last_elem xs = (if xs = [] then NaN else last xs)"

subsection \<open>Trend, seasonality, volatility\<close>

definition calculateTrend :: "jsnum list \<Rightarrow> jsnum \<times> jsnum" where
  "calculateTrend ps =
     (let n = length ps;
          (sumX, sumY, sumXY, sumXX) =
             foldl (\<lambda>(sx, sy, sxy, sxx) i.
                      (jadd sx (Fin (real i)),
                       jadd sy (ps ! i),
                       jadd sxy (jmul (Fin (real i)) (ps ! i)),
                       jadd sxx (Fin (real i * real i))))
                   (Fin 0, Fin 0, Fin 0, Fin 0) [0..<n];
          slope = jdiv (jsub (jmul (Fin (real n)) sumXY) (jmul sumX sumY))
                       (jsub (jmul (Fin (real n)) sumXX) (jmul sumX sumX));
          intercept = jdiv (jsub sumY (jmul slope sumX)) (Fin (real n))
      in (slope, intercept))"

definition calculateSeasonality :: "jsnum list \<Rightarrow> jsnum list" where
  "calculateSeasonality ps =
     (let cycleLength = 7;
          overallMean = jdiv (jsum ps) (Fin (real (length ps)));
          (seasonalFactors, counts) =
             foldl (\<lambda>(sf, cnt) index.
                      (let dayOfCycle = index mod cycleLength
                       in (sf[dayOfCycle := jadd (sf ! dayOfCycle) (ps ! index)],
                           cnt[dayOfCycle := cnt ! dayOfCycle + 1])))
                   (replicate cycleLength (Fin 0), replicate cycleLength (0::nat))
                   [0..<length ps]
      in map (\<lambda>i. let avg = (if counts ! i > 0
                               then jdiv (seasonalFactors ! i) (Fin (real (counts ! i)))
                               else overallMean)
                   in jdiv avg overallMean) [0..<cycleLength])"

definition calculateVolatility :: "jsnum list \<Rightarrow> jsnum" where
  "calculateVolatility ps =
     (let mean = jdiv (jsum ps) (Fin (real (length ps)));
          variance = jdiv (foldl (\<lambda>s price. jadd s (jmul (jsub price mean) (jsub price mean)))
                                 (Fin 0) ps)
                          (Fin (real (length ps)))
      in jsqrt variance)"

subsection \<open>generateForecasts\<close>

text \<open>The prediction pushed for the offset \<open>i\<close>, once its date \<open>d\<close> is printed.\<close>

definition forecast_point ::
  "day \<Rightarrow> nat \<Rightarrow> jsnum \<times> jsnum \<Rightarrow> jsnum list \<Rightarrow> jsnum \<Rightarrow> int \<Rightarrow> prediction" where
  "forecast_point d n trnd seasonalComponent volatility i =
     (let trendValue = jadd (jmul (fst trnd) (Fin (real n + real_of_int i))) (snd trnd);
          seasonalIndex = (n + nat i) mod length seasonalComponent;
          seasonalValue = seasonalComponent ! seasonalIndex;
          predicted = jround (jmul trendValue seasonalValue);
          confidenceWidth = jmul volatility (jsqrt (Fin (real_of_int i)));
          lower = jmax (Fin 0) (jround (jsub predicted confidenceWidth));
          upper = jround (jadd predicted confidenceWidth)
      in \<lparr>pdate = d,
          predictedPrice = predicted,
          confidence = (if i > 30 then Low else if i > 7 then Medium else High),
          lowerBound = lower,
          upperBound = upper\<rparr>)"

text \<open>The body of the loop, for the offset \<open>i\<close>: it reads the clock (the reading
  \<open>i - 1\<close> of the loop) and printing the date can throw.\<close>

definition forecast_step ::
  "env \<Rightarrow> world \<Rightarrow> nat \<Rightarrow> jsnum \<times> jsnum \<Rightarrow> jsnum list \<Rightarrow> jsnum \<Rightarrow> int \<Rightarrow> error + prediction" where
  "forecast_step e w n trnd seasonalComponent volatility i =
     (case date_at e w (nat (i - 1)) i of
        Inl err \<Rightarrow> Inl err
      | Inr d \<Rightarrow> Inr (forecast_point d n trnd seasonalComponent volatility i))"

definition generateForecasts :: "env \<Rightarrow> world \<Rightarrow> PriceHistory \<Rightarrow> int \<Rightarrow> prediction list outcome" where
  "generateForecasts e w history horizonDays =
     (let ps = prices history;
          n = length ps;
          trnd = calculateTrend ps;
          seasonalComponent = calculateSeasonality ps;
          volatility = calculateVolatility ps
      in case loop (forecast_step e w n trnd seasonalComponent volatility) [1..horizonDays] of
           Inr preds \<Rightarrow> Inr (preds, tick (nat horizonDays) w)
         | Inl (err, k) \<Rightarrow> Inl (err, tick (Suc k) w))"

subsection \<open>Seasonality description and insights\<close>

definition detectSeasonality :: "jsnum list \<Rightarrow> string" where
  "detectSeasonality ps =
     (if length ps < 30 then ''Insufficient data for seasonality detection''
      else
        (let volatility = calculateVolatility ps;
             mean = jdiv (jsum ps) (Fin (real (length ps)));
             cv = jdiv volatility mean
         in if jlt cv (Fin 0.1) then ''Low seasonality - stable prices''
            else if jlt cv (Fin 0.2) then ''Moderate seasonality - some variation''
            else ''High seasonality - significant variation''))"

definition avgForecast :: "prediction list \<Rightarrow> jsnum" where
  "avgForecast preds =
     jdiv (foldl (\<lambda>s p. jadd s (predictedPrice p)) (Fin 0) (take 7 preds)) (Fin 7)"

definition forecastChange :: "PriceHistory \<Rightarrow> prediction list \<Rightarrow> jsnum" where
  "forecastChange history preds =
     (let current = last_elem (prices history)
      in jmul (jdiv (jsub (avgForecast preds) current) current) (Fin 100))"

definition generateInsights :: "env \<Rightarrow> PriceHistory \<Rightarrow> prediction list \<Rightarrow> string \<Rightarrow> insight list" where
  "generateInsights e history preds cat =
     (case trend history of
        Up \<Rightarrow> [TrendingUpward (changePercent history)]
      | Down \<Rightarrow> [TrendingDownward (changePercent history)]
      | Stable \<Rightarrow> [PricesStable])
     @ (if jgt (forecastChange history preds) (Fin 5) then [ForecastIncrease]
        else if jlt (forecastChange history preds) (Fin (- 5)) then [ForecastDecrease]
        else [])
     @ (if month e \<in> {9, 10} then [FestivalSeason cat] else [])
     @ [BasedOnDays (length (dates history))]"

subsection \<open>fallbackForecast and forecastPrices\<close>

text \<open>The prediction of the fallback loop for the offset \<open>i\<close>, once its date \<open>d\<close> is
  printed, and the body of the loop: it reads the clock, draws one random value, and
  printing the date can throw.\<close>

definition fallback_point :: "day \<Rightarrow> world \<Rightarrow> jsnum \<Rightarrow> int \<Rightarrow> prediction" where
  "fallback_point d w current i =
     (let trendFactor = 1 + real_of_int i * 0.001;
          noise = (rnd w (nat (i - 1)) - 0.5) * 0.05;
          predicted = jround (jmul (jmul current (Fin trendFactor)) (Fin (1 + noise)))
      in \<lparr>pdate = d,
          predictedPrice = predicted,
          confidence = (if i \<le> 7 then Medium else Low),
          lowerBound = jround (jmul predicted (Fin 0.9)),
          upperBound = jround (jmul predicted (Fin 1.1))\<rparr>)"

definition fallback_step :: "env \<Rightarrow> world \<Rightarrow> jsnum \<Rightarrow> int \<Rightarrow> error + prediction" where
  "fallback_step e w current i =
     (case date_at e w (nat (i - 1)) i of
        Inl err \<Rightarrow> Inl err
      | Inr d \<Rightarrow> Inr (fallback_point d w current i))"

definition fallbackForecast :: "env \<Rightarrow> world \<Rightarrow> string \<Rightarrow> int \<Rightarrow> ForecastResult outcome" where
  "fallbackForecast e w cat horizonDays =
     (let current = base_price basePrices_mock cat
      in case loop (fallback_step e w current) [1..horizonDays] of
           Inr preds \<Rightarrow>
             Inr (\<lparr>predictions = preds,
                   currentPrice = current,
                   ftrend = Stable,
                   seasonality = ''Moderate'',
                   insights = [UsingSimulatedData, ConnectRealSources, ConsiderMarketConditions]\<rparr>,
                  tick (nat horizonDays) (consume (nat horizonDays) w))
         | Inl (err, k) \<Rightarrow> Inl (err, tick (Suc k) (consume (Suc k) w)))"

text \<open>
  The body of the \<open>try\<close> and the function: too short a history throws, and so can the
  history call and the forecast loop; all that is caught. What \<open>fallbackForecast\<close>
  throws in the \<open>catch\<close> rejects the call.
\<close>

definition forecast_body :: "env \<Rightarrow> world \<Rightarrow> string \<Rightarrow> int \<Rightarrow> ForecastResult outcome" where
  "forecast_body e w cat horizonDays =
     (case fetchPriceHistory e w cat 90 of
        Inl err \<Rightarrow> Inl err
      | Inr (history, w1) \<Rightarrow>
          (if length (prices history) < 7 then Inl (InsufficientData, w1)
           else
             (case generateForecasts e w1 history horizonDays of
                Inl err \<Rightarrow> Inl err
              | Inr (preds, w2) \<Rightarrow>
                  Inr (\<lparr>predictions = preds,
                        currentPrice = last_elem (prices history),
                        ftrend = trend history,
                        seasonality = detectSeasonality (prices history),
                        insights = generateInsights e history preds cat\<rparr>, w2))))"

definition forecastPrices :: "env \<Rightarrow> world \<Rightarrow> string \<Rightarrow> int \<Rightarrow> ForecastResult outcome" where
  "forecastPrices e w cat horizonDays =
     (case forecast_body e w cat horizonDays of
        Inr r \<Rightarrow> Inr r
      | Inl (err, w1) \<Rightarrow> fallbackForecast e w1 cat horizonDays)"

section \<open>Definitions used by the statements\<close>

text \<open>The value a call resolves with, if it resolves.\<close>

definition value_of :: "'a outcome \<Rightarrow> 'a option" where
  "value_of r = (case r of Inr (x, w) \<Rightarrow> Some x | Inl err \<Rightarrow> None)"

subsection \<open>The comparison of averages as the specification words it\<close>



subsection \<open>Failing and empty sources\<close>

text \<open>The source fails: it is disabled, it has no key, the network call rejects, the
  response is not ok, or its body is not JSON. The source is empty: the payload is
  malformed or has no record.\<close>

definition source_fails :: "env \<Rightarrow> bool" where
  "source_fails e = (\<not> enabled e \<or> apiKey e = [] \<or> upstream e \<in> {NetworkError, NotOk, InvalidJson})"

definition source_empty :: "env \<Rightarrow> bool" where
  "source_empty e =
     (enabled e \<and> apiKey e \<noteq> [] \<and> upstream e \<in> {Json Malformed, Json (RecordList [])})"

subsection \<open>Concrete inputs\<close>

text \<open>An upstream record with a date and a modal price; a series of them on consecutive
  days; a host on UTC; a configured source that answers with such a series; a source
  that is not configured; a state with an empty cache, in which the clock stands at the
  start of day 100.\<close>

definition obs :: "day \<Rightarrow> real \<Rightarrow> raw_record" where
  "obs d p = \<lparr>Commodity = None, Min_Price = NaN, Max_Price = NaN, Modal_Price = Fin p,
             Price_Date = Some d, Market_Name = None\<rparr>"

fun series_from :: "day \<Rightarrow> real list \<Rightarrow> raw_record list" where
  "series_from d [] = []"
| "series_from d (p # ps) = obs d p # series_from (d + 1) ps"

definition utc :: "int \<Rightarrow> 28 word" where
  "utc t = 0"

definition live_env :: "real list \<Rightarrow> env" where
  "live_env ps = \<lparr>enabled = True, apiKey = ''key'', upstream = Json (RecordList (series_from 1 ps)),
                  t_get = 0, t_put = 1, zone_utc = utc, zone_local = utc, month = 0\<rparr>"

definition offline_env :: env where
  "offline_env = \<lparr>enabled = False, apiKey = [], upstream = NetworkError,
                  t_get = 0, t_put = 1, zone_utc = utc, zone_local = utc, month = 0\<rparr>"

definition fresh_world :: world where
  "fresh_world = \<lparr>cache = Map.empty, rnd = (\<lambda>k. 1 / 2), clock = (\<lambda>k. 8640000000)\<rparr>"


text \<open>The state a call leaves behind, and the prices of the history it resolves with.\<close>

definition world_of :: "'a outcome \<Rightarrow> world" where
  "world_of r = (case r of Inr (x, w) \<Rightarrow> w | Inl (err, w) \<Rightarrow> w)"

definition resolved_prices :: "PriceHistory outcome \<Rightarrow> jsnum list" where
  "resolved_prices r = (case value_of r of Some h \<Rightarrow> prices h | None \<Rightarrow> [])"

text \<open>A state with an empty cache in which \<open>Math.random()\<close> returns 0.5 thirty times and
  0 from then on; an unconfigured source asked half a minute later.\<close>

definition two_draws :: world where
  "two_draws = \<lparr>cache = Map.empty, rnd = (\<lambda>k. if k < 30 then 1 / 2 else 0),
                 clock = (\<lambda>k. 8640000000)\<rparr>"

definition later_env :: env where
  "later_env = \<lparr>enabled = False, apiKey = [], upstream = NetworkError,
                t_get = 30000, t_put = 30001, zone_utc = utc, zone_local = utc, month = 0\<rparr>"

text \<open>The width of the confidence interval of a prediction; the lower bound of the
  prediction at offset \<open>i\<close> before \<open>Math.max(0, ...)\<close> clamps it; the width at offset \<open>i\<close>
  of the forecast a call resolves with.\<close>

definition width :: "prediction \<Rightarrow> jsnum" where
  "width p = jsub (upperBound p) (lowerBound p)"

definition raw_lower :: "PriceHistory \<Rightarrow> prediction \<Rightarrow> int \<Rightarrow> jsnum" where
  "raw_lower history p i =
     jround (jsub (predictedPrice p)
               (jmul (calculateVolatility (prices history)) (jsqrt (Fin (real_of_int i)))))"

definition width_at :: "ForecastResult outcome \<Rightarrow> int \<Rightarrow> jsnum" where
  "width_at r i = (case value_of r of Some f \<Rightarrow> width (predictions f ! nat (i - 1)) | None \<Rightarrow> NaN)"

text \<open>The history \<open>fetchPriceHistory\<close> builds from the seven observations 11, 13, 12, 9,
  8, 10, 7 on the days 1 to 7.\<close>

definition dip_history :: PriceHistory where
  "dip_history = \<lparr>dates = [1, 2, 3, 4, 5, 6, 7],
                  prices = [Fin 11, Fin 13, Fin 12, Fin 9, Fin 8, Fin 10, Fin 7],
                  trend = Stable, changePercent = Fin 0\<rparr>"

subsection \<open>Clocks and time zones\<close>

text \<open>The clock of the second state is the clock of the first, some readings later.\<close>

definition later :: "world \<Rightarrow> world \<Rightarrow> bool" where
  "later w w1 = (\<exists>n. clock w1 = (\<lambda>i. clock w (i + n)))"






text \<open>The nine predictions made from the history \<open>dip_history\<close> on a host on UTC whose
  clock stands at the start of day 100.\<close>

definition dip_predictions :: "prediction list" where
  "dip_predictions =
     map (\<lambda>i. forecast_point (100 + i) 7 (calculateTrend (prices dip_history))
                 (calculateSeasonality (prices dip_history))
                 (calculateVolatility (prices dip_history)) i)
         [1..9]"

section \<open>Properties\<close>

subsection \<open>Slices and sums\<close>

lemma slice_last_short: "length xs \<le> nat k \<Longrightarrow> 0 \<le> k \<Longrightarrow> slice_last k xs = xs"
  by (auto simp: slice_last_def slice_from_def)



subsection \<open>Loops\<close>

lemma loop_all:
  assumes "\<forall>i\<in>set is. body i = Inr (g i)"
  shows "loop body is = Inr (map g is)"
  using assms by (induction "is") simp_all

lemma loop_throws:
  assumes "i \<in> set is" "body i = Inl err"
  shows "\<exists>err' k. loop body is = Inl (err', k)"
  using assms by (induction "is") (auto split: sum.splits)

lemma loop_length: "loop body is = Inr xs \<Longrightarrow> length xs = length is"
  by (induction "is" arbitrary: xs) (auto split: sum.splits)

lemma loop_nth:
  assumes "loop body is = Inr xs" "k < length is"
  shows "body (is ! k) = Inr (xs ! k)"
  using assms
proof (induction "is" arbitrary: xs k)
  case Nil
  then show ?case by simp
next
  case (Cons i "is")
  then show ?case
    by (cases k) (auto split: sum.splits)
qed

subsection \<open>Dates within the range\<close>

lemma moved_in_range:
  fixes t :: "48 word" and a b :: "28 word"
  assumes "- 99999990 \<le> i" "i \<le> 96000000"
  shows "\<bar>uint t + sint a + i * msPerDay - sint b\<bar> \<le> maxTime"
proof -
  have t: "uint t < 281474976710656"
    using uint_lt2p[of t] by simp
  have a: "- 134217728 \<le> sint a" "sint a < 134217728"
    using sint_ge[of a] sint_lt[of a] by simp_all
  have b: "- 134217728 \<le> sint b" "sint b < 134217728"
    using sint_ge[of b] sint_lt[of b] by simp_all
  show ?thesis
    unfolding msPerDay_def maxTime_def
    using t a b assms uint_ge_0[of t] by linarith
qed

lemma date_at_in_range:
  assumes "- 99999990 \<le> i" "i \<le> 96000000"
  shows "date_at e w k i = Inr (moved_time e (uint (clock w k)) i div msPerDay)"
  using moved_in_range[OF assms]
  by (simp add: date_at_def setDate_plus_def moved_time_def TimeClip_def Let_def)

text \<open>On a host whose offset from UTC is the same at all times, a date is moved by
  whole days.\<close>

lemma date_at_fixed_zone:
  assumes "\<forall>t. zone_utc e t = z" "\<forall>t. zone_local e t = z"
    and "- 99999990 \<le> i" "i \<le> 96000000"
  shows "date_at e w k i = Inr (uint (clock w k) div msPerDay + i)"
proof -
  have "\<bar>uint (clock w k) + sint z + i * msPerDay - sint z\<bar> \<le> maxTime"
    using assms(3,4) by (rule moved_in_range)
  then show ?thesis
    using assms(1,2)
    by (simp add: date_at_def setDate_plus_def moved_time_def TimeClip_def Let_def msPerDay_def)
qed

subsection \<open>The calls resolve while the dates stay in range\<close>

lemma getFallbackPrices_resolves:
  "getFallbackPrices e w cat =
     Inr (map (\<lambda>i. simulated_point (moved_time e (uint (clock w i)) (- int i) div msPerDay) w cat
                    (base_price basePrices_fallback cat) i) [0..<30],
          tick 30 (consume 30 w))"
proof -
  have "date_at e w i (- int i) = Inr (moved_time e (uint (clock w i)) (- int i) div msPerDay)"
    if "i \<in> set [0..<30]" for i
    using that by (intro date_at_in_range) simp_all
  then have "loop (\<lambda>i. case date_at e w i (- int i) of
                        Inl err \<Rightarrow> Inl err
                      | Inr d \<Rightarrow> Inr (simulated_point d w cat (base_price basePrices_fallback cat) i))
                [0..<30]
      = Inr (map (\<lambda>i. simulated_point (moved_time e (uint (clock w i)) (- int i) div msPerDay) w cat
                    (base_price basePrices_fallback cat) i) [0..<30])"
    by (intro loop_all) simp
  then show ?thesis
    by (simp add: getFallbackPrices_def Let_def del: upt_rec_numeral)
qed

lemma fallback_keeps_cache:
  "getFallbackPrices e w cat = Inr (ps, w') \<Longrightarrow> cache w' = cache w \<and> length ps = 30"
  by (auto simp: getFallbackPrices_resolves tick_def consume_def)

lemma fetchAGMARKNETPrices_resolves:
  "\<exists>ps aliased w'. fetchAGMARKNETPrices e w cat = Inr ((ps, aliased), w')"
  by (auto simp: fetchAGMARKNETPrices_def fetch_body_def unaliased_def getFallbackPrices_resolves
           Let_def split: option.splits sum.splits prod.splits upstream.splits)

lemma generateMockHistory_resolves:
  assumes "days \<le> 99999990"
  shows "generateMockHistory e w cat days =
     Inr (\<lparr>dates = map (\<lambda>k. moved_time e (uint (clock w k)) (- (days - int k)) div msPerDay)
                     [0..<nat (days + 1)],
           prices = map (mock_price w (base_price basePrices_mock cat) days) [0..<nat (days + 1)],
           trend = trend_of_change (change_of
                     (map (mock_price w (base_price basePrices_mock cat) days) [0..<nat (days + 1)])),
           changePercent = round2 (change_of
                     (map (mock_price w (base_price basePrices_mock cat) days) [0..<nat (days + 1)]))\<rparr>,
          tick (nat (days + 1)) (consume (nat (days + 1)) w))"
proof -
  have "date_at e w k (- (days - int k))
      = Inr (moved_time e (uint (clock w k)) (- (days - int k)) div msPerDay)"
    if "k \<in> set [0..<nat (days + 1)]" for k
    using that assms by (intro date_at_in_range) auto
  then have "loop (\<lambda>k. case date_at e w k (- (days - int k)) of
                        Inl err \<Rightarrow> Inl err
                      | Inr d \<Rightarrow> Inr (d, mock_price w (base_price basePrices_mock cat) days k))
             [0..<nat (days + 1)]
      = Inr (map (\<lambda>k. (moved_time e (uint (clock w k)) (- (days - int k)) div msPerDay,
                        mock_price w (base_price basePrices_mock cat) days k)) [0..<nat (days + 1)])"
    by (intro loop_all) simp
  then show ?thesis
    by (simp add: generateMockHistory_def Let_def comp_def)
qed

lemma mock_shape:
  "generateMockHistory e w cat days = Inr (h, w') \<Longrightarrow>
     length (dates h) = length (prices h) \<and> changePercent h = round2 (change_of (prices h))
     \<and> trend h = trend_of_change (change_of (prices h)) \<and> cache w' = cache w
     \<and> length (prices h) = nat (days + 1)"
  by (auto simp: generateMockHistory_def Let_def tick_def consume_def dest: loop_length
      split: sum.splits)

lemma mock_error_keeps_cache:
  "generateMockHistory e w cat days = Inl (err, w') \<Longrightarrow> cache w' = cache w"
  by (auto simp: generateMockHistory_def Let_def tick_def consume_def split: sum.splits)

lemma history_shape:
  assumes "fetchPriceHistory e w cat days = Inr (h, w')"
  shows "length (dates h) = length (prices h) \<and> changePercent h = round2 (change_of (prices h))
     \<and> trend h = trend_of_change (change_of (prices h))"
proof -
  obtain ps aliased w1 where f: "fetchAGMARKNETPrices e w cat = Inr ((ps, aliased), w1)"
    using fetchAGMARKNETPrices_resolves by blast
  show ?thesis
  proof (cases "length ps = 0")
    case True
    then have "\<exists>w0. generateMockHistory e w0 cat days = Inr (h, w')"
      using f assms
      by (auto simp: fetchPriceHistory_def history_body_def split: sum.splits)
    then show ?thesis using mock_shape by blast
  next
    case False
    with f assms show ?thesis
      by (auto simp: fetchPriceHistory_def history_body_def Let_def)
  qed
qed

lemma fetchPriceHistory_body:
  assumes "days \<le> 99999990"
  shows "fetchPriceHistory e w cat days = history_body e w cat days"
    and "\<exists>h w'. history_body e w cat days = Inr (h, w')"
proof -
  obtain ps aliased w1 where f: "fetchAGMARKNETPrices e w cat = Inr ((ps, aliased), w1)"
    using fetchAGMARKNETPrices_resolves by blast
  show "\<exists>h w'. history_body e w cat days = Inr (h, w')"
    using f by (simp add: history_body_def Let_def generateMockHistory_resolves[OF assms])
  then show "fetchPriceHistory e w cat days = history_body e w cat days"
    by (auto simp: fetchPriceHistory_def)
qed

lemma fetchPriceHistory_resolves:
  "days \<le> 99999990 \<Longrightarrow> \<exists>h w'. fetchPriceHistory e w cat days = Inr (h, w')"
  by (simp add: fetchPriceHistory_body)

subsection \<open>The forecast loops\<close>

lemma generateForecasts_resolves:
  assumes "k \<le> 96000000"
  shows "generateForecasts e w h k =
     Inr (map (\<lambda>i. forecast_point (moved_time e (uint (clock w (nat (i - 1)))) i div msPerDay)
                    (length (prices h)) (calculateTrend (prices h))
                    (calculateSeasonality (prices h)) (calculateVolatility (prices h)) i) [1..k],
          tick (nat k) w)"
proof -
  have "date_at e w (nat (i - 1)) i = Inr (moved_time e (uint (clock w (nat (i - 1)))) i div msPerDay)"
    if "i \<in> set [1..k]" for i
    using that assms by (intro date_at_in_range) auto
  then have "loop (forecast_step e w (length (prices h)) (calculateTrend (prices h))
                    (calculateSeasonality (prices h)) (calculateVolatility (prices h))) [1..k]
      = Inr (map (\<lambda>i. forecast_point (moved_time e (uint (clock w (nat (i - 1)))) i div msPerDay)
                    (length (prices h)) (calculateTrend (prices h))
                    (calculateSeasonality (prices h)) (calculateVolatility (prices h)) i) [1..k])"
    by (intro loop_all) (simp add: forecast_step_def)
  then show ?thesis
    by (simp add: generateForecasts_def Let_def)
qed

lemma fallbackForecast_resolves:
  assumes "k \<le> 96000000"
  shows "fallbackForecast e w cat k =
     Inr (\<lparr>predictions =
             map (\<lambda>i. fallback_point (moved_time e (uint (clock w (nat (i - 1)))) i div msPerDay)
                        w (base_price basePrices_mock cat) i) [1..k],
           currentPrice = base_price basePrices_mock cat,
           ftrend = Stable,
           seasonality = ''Moderate'',
           insights = [UsingSimulatedData, ConnectRealSources, ConsiderMarketConditions]\<rparr>,
          tick (nat k) (consume (nat k) w))"
proof -
  have "date_at e w (nat (i - 1)) i = Inr (moved_time e (uint (clock w (nat (i - 1)))) i div msPerDay)"
    if "i \<in> set [1..k]" for i
    using that assms by (intro date_at_in_range) auto
  then have "loop (fallback_step e w (base_price basePrices_mock cat)) [1..k]
      = Inr (map (\<lambda>i. fallback_point (moved_time e (uint (clock w (nat (i - 1)))) i div msPerDay)
                        w (base_price basePrices_mock cat) i) [1..k])"
    by (intro loop_all) (simp add: fallback_step_def)
  then show ?thesis
    by (simp add: fallbackForecast_def Let_def)
qed

lemma generateForecasts_length:
  "generateForecasts e w h k = Inr (preds, w') \<Longrightarrow> length preds = nat k"
  by (auto simp: generateForecasts_def Let_def dest: loop_length split: sum.splits)

lemma fallbackForecast_length:
  "fallbackForecast e w cat k = Inr (r, w') \<Longrightarrow> length (predictions r) = nat k"
  by (auto simp: fallbackForecast_def Let_def dest: loop_length split: sum.splits)

lemma forecastPrices_primary:
  assumes "fetchPriceHistory e w cat 90 = Inr (h, w1)"
    and "7 \<le> length (prices h)"
    and "generateForecasts e w1 h k = Inr (preds, w2)"
  shows "forecastPrices e w cat k =
      Inr (\<lparr>predictions = preds,
            currentPrice = last_elem (prices h),
            ftrend = trend h,
            seasonality = detectSeasonality (prices h),
            insights = generateInsights e h preds cat\<rparr>, w2)"
  using assms by (simp add: forecastPrices_def forecast_body_def)

lemma forecastPrices_short:
  assumes "fetchPriceHistory e w cat 90 = Inr (h, w1)"
    and "length (prices h) < 7"
  shows "forecastPrices e w cat k = fallbackForecast e w1 cat k"
  using assms by (simp add: forecastPrices_def forecast_body_def)

lemma forecastPrices_resolves:
  assumes "k \<le> 96000000"
  shows "\<exists>r w'. forecastPrices e w cat k = Inr (r, w') \<and> length (predictions r) = nat k"
proof -
  obtain h w1 where h: "fetchPriceHistory e w cat 90 = Inr (h, w1)"
    using fetchPriceHistory_resolves[of 90 e w cat] by auto
  show ?thesis
  proof (cases "length (prices h) < 7")
    case True
    then show ?thesis
      using forecastPrices_short[OF h True, of k] fallbackForecast_resolves[OF assms, of e w1 cat]
      by simp
  next
    case False
    then have "7 \<le> length (prices h)" by simp
    then show ?thesis
      using forecastPrices_primary[OF h _ generateForecasts_resolves[OF assms, of e w1 h]]
      by simp
  qed
qed

subsection \<open>Dates out of the range\<close>

lemma date_at_out_of_range:
  assumes "200000000 \<le> \<bar>i\<bar>"
  shows "date_at e w k i = Inl RangeError"
proof -
  let ?t = "clock w k"
  let ?a = "zone_utc e (uint ?t)"
  let ?b = "zone_local e (uint ?t + sint ?a + i * msPerDay)"
  have t: "uint ?t < 281474976710656"
    using uint_lt2p[of ?t] by simp
  have a: "- 134217728 \<le> sint ?a" "sint ?a < 134217728"
    using sint_ge[of ?a] sint_lt[of ?a] by simp_all
  have b: "- 134217728 \<le> sint ?b" "sint ?b < 134217728"
    using sint_ge[of ?b] sint_lt[of ?b] by simp_all
  have "\<not> \<bar>uint ?t + sint ?a + i * msPerDay - sint ?b\<bar> \<le> maxTime"
    using t a b assms uint_ge_0[of ?t] unfolding msPerDay_def maxTime_def by linarith
  then show ?thesis
    by (simp add: date_at_def setDate_plus_def moved_time_def TimeClip_def Let_def)
qed

lemma generateMockHistory_rejects:
  assumes "200000000 \<le> days"
  shows "value_of (generateMockHistory e w cat days) = None"
proof -
  define body where "body = (\<lambda>k. case date_at e w k (- (days - int k)) of
                        Inl err \<Rightarrow> Inl err
                      | Inr d \<Rightarrow> Inr (d, mock_price w (base_price basePrices_mock cat) days k))"
  have m: "(0::nat) \<in> set [0..<nat (days + 1)]"
    using assms by simp
  have f: "body 0 = Inl RangeError"
    using assms by (simp add: body_def date_at_out_of_range)
  obtain err k where "loop body [0..<nat (days + 1)] = Inl (err, k)"
    using loop_throws[of 0 "[0..<nat (days + 1)]" body RangeError, OF m f] by blast
  then show ?thesis
    unfolding generateMockHistory_def Let_def value_of_def body_def[symmetric] by simp
qed

lemma fallbackForecast_rejects:
  assumes "200000000 \<le> k"
  shows "value_of (fallbackForecast e w cat k) = None"
proof -
  have m: "200000000 \<in> set [1..k]"
    using assms by simp
  have "(200000000::int) \<le> \<bar>200000000\<bar>"
    by simp
  then have f: "fallback_step e w (base_price basePrices_mock cat) 200000000 = Inl RangeError"
    unfolding fallback_step_def by (simp only: date_at_out_of_range sum.case)
  obtain err n where
    "loop (fallback_step e w (base_price basePrices_mock cat)) [1..k] = Inl (err, n)"
    using loop_throws[of 200000000 "[1..k]" "fallback_step e w (base_price basePrices_mock cat)"
        RangeError, OF m f] by blast
  then show ?thesis
    by (simp add: fallbackForecast_def value_of_def Let_def)
qed

lemma generateForecasts_rejects:
  assumes "200000000 \<le> k"
  shows "value_of (generateForecasts e w h k) = None"
proof -
  have m: "200000000 \<in> set [1..k]"
    using assms by simp
  have "(200000000::int) \<le> \<bar>200000000\<bar>"
    by simp
  then have f: "forecast_step e w (length (prices h)) (calculateTrend (prices h))
       (calculateSeasonality (prices h)) (calculateVolatility (prices h)) 200000000 = Inl RangeError"
    unfolding forecast_step_def by (simp only: date_at_out_of_range sum.case)
  obtain err n where
    "loop (forecast_step e w (length (prices h)) (calculateTrend (prices h))
       (calculateSeasonality (prices h)) (calculateVolatility (prices h))) [1..k] = Inl (err, n)"
    using loop_throws[of 200000000 "[1..k]" "forecast_step e w (length (prices h))
        (calculateTrend (prices h)) (calculateSeasonality (prices h))
        (calculateVolatility (prices h))" RangeError, OF m f] by blast
  then show ?thesis
    by (simp add: generateForecasts_def value_of_def Let_def)
qed

lemma value_of_Some: "value_of r = Some x \<longleftrightarrow> (\<exists>w. r = Inr (x, w))"
  by (auto simp: value_of_def split: sum.splits)

lemma value_of_None: "value_of r = None \<longleftrightarrow> (\<exists>err w. r = Inl (err, w))"
  by (auto simp: value_of_def split: sum.splits)

lemma forecastPrices_rejects:
  assumes "200000000 \<le> k"
  shows "value_of (forecastPrices e w cat k) = None"
proof -
  have fb: "\<exists>err w'. fallbackForecast e w1 cat k = Inl (err, w')" for w1
    using fallbackForecast_rejects[OF assms, of e w1 cat] by (simp add: value_of_None)
  have gf: "\<exists>err w'. generateForecasts e w1 h k = Inl (err, w')" for w1 h
    using generateForecasts_rejects[OF assms, of e w1 h] by (simp add: value_of_None)
  have "\<exists>err w'. forecast_body e w cat k = Inl (err, w')"
  proof (cases "fetchPriceHistory e w cat 90")
    case (Inl a)
    then show ?thesis
      by (cases a) (simp add: forecast_body_def)
  next
    case (Inr b)
    obtain h w1 where b: "b = (h, w1)" by (cases b)
    obtain err w' where "generateForecasts e w1 h k = Inl (err, w')"
      using gf by blast
    then show ?thesis
      using Inr b by (simp add: forecast_body_def)
  qed
  then obtain err w1 where "forecast_body e w cat k = Inl (err, w1)"
    by blast
  moreover obtain err' w' where "fallbackForecast e w1 cat k = Inl (err', w')"
    using fb by blast
  ultimately show ?thesis
    by (simp add: forecastPrices_def value_of_def)
qed

subsection \<open>A failing source selects the simulated data\<close>

lemma failure_selects_fallback:
  assumes "getFromCache (t_get e) (cache w) (cacheKey cat) = None" "source_fails e"
  shows "fetchAGMARKNETPrices e w cat = unaliased (getFallbackPrices e w cat)"
  using assms
  by (auto simp: fetchAGMARKNETPrices_def fetch_body_def source_fails_def
      getFallbackPrices_resolves unaliased_def split: upstream.splits)

lemma tick_0: "tick 0 w = w"
  by (simp add: tick_def)

lemma consume_0: "consume 0 w = w"
  by (simp add: consume_def)

lemma empty_fetch:
  assumes "getFromCache (t_get e) (cache w) (cacheKey cat) = None" "source_empty e"
  shows "fetchAGMARKNETPrices e w cat
     = Inr (([], True), w\<lparr>cache := saveToCache (t_put e) (cache w) (cacheKey cat) []\<rparr>)"
  using assms
  by (auto simp: fetchAGMARKNETPrices_def fetch_body_def source_empty_def
      parseAGMARKNETResponse_def undated_def tick_0)

lemma empty_selects_mock:
  assumes "getFromCache (t_get e) (cache w) (cacheKey cat) = None" "source_empty e"
    and "days \<le> 99999990"
  shows "fetchPriceHistory e w cat days =
           generateMockHistory e
             (w\<lparr>cache := saveToCache (t_put e) (cache w) (cacheKey cat) []\<rparr>) cat days"
  using empty_fetch[OF assms(1,2)] generateMockHistory_resolves[OF assms(3)]
  by (simp add: fetchPriceHistory_def history_body_def)

lemma empty_source_rejects:
  assumes "getFromCache (t_get e) (cache w) (cacheKey cat) = None" "source_empty e"
    and "200000000 \<le> days"
  shows "value_of (fetchPriceHistory e w cat days) = None"
proof -
  let ?w1 = "w\<lparr>cache := saveToCache (t_put e) (cache w) (cacheKey cat) []\<rparr>"
  obtain err w2 where a: "generateMockHistory e ?w1 cat days = Inl (err, w2)"
    using generateMockHistory_rejects[OF assms(3), of e ?w1 cat] by (auto simp: value_of_None)
  obtain err' w3 where b: "generateMockHistory e w2 cat days = Inl (err', w3)"
    using generateMockHistory_rejects[OF assms(3), of e w2 cat] by (auto simp: value_of_None)
  show ?thesis
    using empty_fetch[OF assms(1,2)] a b
    by (simp add: fetchPriceHistory_def history_body_def value_of_def)
qed

text \<open>
  C1 (the claim fails). An argument of two hundred million days takes the dates out of
  the range of a date, and \<open>toISOString\<close> throws in the \<open>try\<close> and again in the \<open>catch\<close>:
  \<open>fetchPriceHistory\<close> rejects when the configured source answers with no record, and
  \<open>forecastPrices\<close> rejects whatever the source does.
\<close>

theorem date_range_counterexample:
  "value_of (fetchPriceHistory (live_env []) fresh_world ''spices'' 200000000) = None
   \<and> value_of (forecastPrices offline_env fresh_world ''spices'' 200000000) = None"
proof -
  have "getFromCache (t_get (live_env [])) (cache fresh_world) (cacheKey ''spices'') = None"
    by (simp add: getFromCache_def fresh_world_def)
  moreover have "source_empty (live_env [])"
    by (simp add: source_empty_def live_env_def)
  ultimately have "value_of (fetchPriceHistory (live_env []) fresh_world ''spices'' 200000000) = None"
    by (rule empty_source_rejects) simp
  moreover have "value_of (forecastPrices offline_env fresh_world ''spices'' 200000000) = None"
    by (rule forecastPrices_rejects) simp
  ultimately show ?thesis by simp
qed

lemma simulated_observations:
  assumes "getFallbackPrices e w cat = Inr (ps, w')"
  shows "length ps = 30 \<and> (\<forall>p\<in>set ps. source p = ''Simulated Data'' \<and> category p = cat)"
  using assms by (auto simp: getFallbackPrices_resolves simulated_point_def Let_def)

lemma fallback_bounds:
  assumes "fallbackForecast e w cat k = Inr (r, w')" "k \<le> 96000000"
  shows "currentPrice r = base_price basePrices_mock cat \<and> ftrend r = Stable
     \<and> seasonality r = ''Moderate''
     \<and> insights r = [UsingSimulatedData, ConnectRealSources, ConsiderMarketConditions]
     \<and> (\<forall>p\<in>set (predictions r).
           lowerBound p = jround (jmul (predictedPrice p) (Fin 0.9))
           \<and> upperBound p = jround (jmul (predictedPrice p) (Fin 1.1)))"
  using assms(1) by (auto simp: fallbackForecast_resolves[OF assms(2)] fallback_point_def Let_def)

text \<open>
  C1 (amended). While the dates stay within the range of a date (a day count up to
  99,999,990 and a horizon up to 96,000,000) the two calls resolve with a value and
  never reject, for every category, every state of the cache and every behaviour of the
  source. The history has as many dates as prices, and its change and trend are those of
  its prices. The forecast has one prediction per day of the horizon; on a history of at
  least 7 prices it is the primary forecast of that history, on a shorter one the
  fallback forecast, with the base price as current price, the trend \<open>stable\<close>, the three
  insights on simulated data and bounds at 0.9 and 1.1 times each prediction. When the
  cache has no fresh entry and the source fails (disabled, no key, network error,
  response not ok, body not JSON), the observations are the thirty simulated ones; when
  the source is empty (malformed payload, no record), the history is the simulated
  history, with one point more than the day count.
\<close>

theorem calls_resolve_within_date_range:
  "(days \<le> 99999990 \<longrightarrow>
      (\<exists>h w'. fetchPriceHistory e w cat days = Inr (h, w')
         \<and> length (dates h) = length (prices h)
         \<and> changePercent h = round2 (change_of (prices h))
         \<and> trend h = trend_of_change (change_of (prices h))))
   \<and> (horizonDays \<le> 96000000 \<longrightarrow>
      (\<exists>hist w1 r w'. fetchPriceHistory e w cat 90 = Inr (hist, w1)
         \<and> forecastPrices e w cat horizonDays = Inr (r, w')
         \<and> length (predictions r) = nat horizonDays
         \<and> (7 \<le> length (prices hist) \<longrightarrow>
              generateForecasts e w1 hist horizonDays = Inr (predictions r, w')
              \<and> currentPrice r = last (prices hist) \<and> ftrend r = trend hist
              \<and> seasonality r = detectSeasonality (prices hist)
              \<and> insights r = generateInsights e hist (predictions r) cat)
         \<and> (length (prices hist) < 7 \<longrightarrow>
              fallbackForecast e w1 cat horizonDays = Inr (r, w')
              \<and> currentPrice r = base_price basePrices_mock cat \<and> ftrend r = Stable
              \<and> seasonality r = ''Moderate''
              \<and> insights r = [UsingSimulatedData, ConnectRealSources, ConsiderMarketConditions]
              \<and> (\<forall>p\<in>set (predictions r).
                    lowerBound p = jround (jmul (predictedPrice p) (Fin 0.9))
                    \<and> upperBound p = jround (jmul (predictedPrice p) (Fin 1.1))))))
   \<and> (getFromCache (t_get e) (cache w) (cacheKey cat) = None \<and> source_fails e \<longrightarrow>
      (\<exists>ps w'. getFallbackPrices e w cat = Inr (ps, w')
         \<and> fetchAGMARKNETPrices e w cat = Inr ((ps, False), w')
         \<and> length ps = 30
         \<and> (\<forall>p\<in>set ps. source p = ''Simulated Data'' \<and> category p = cat)
         \<and> (\<exists>h. fetchPriceHistory e w cat days = Inr (h, w')
               \<and> dates h = map date (slice_last days (sort_key date ps))
               \<and> prices h = map modalPrice (slice_last days (sort_key date ps)))))
   \<and> (getFromCache (t_get e) (cache w) (cacheKey cat) = None \<and> source_empty e
        \<and> days \<le> 99999990 \<longrightarrow>
      (\<exists>h w'. generateMockHistory e
                 (w\<lparr>cache := saveToCache (t_put e) (cache w) (cacheKey cat) []\<rparr>) cat days
                = Inr (h, w')
         \<and> fetchPriceHistory e w cat days = Inr (h, w')
         \<and> length (prices h) = nat (days + 1)))"
proof -
  have a: "\<exists>h w'. fetchPriceHistory e w cat days = Inr (h, w')
         \<and> length (dates h) = length (prices h)
         \<and> changePercent h = round2 (change_of (prices h))
         \<and> trend h = trend_of_change (change_of (prices h))" if le: "days \<le> 99999990"
  proof -
    obtain h w' where r: "fetchPriceHistory e w cat days = Inr (h, w')"
      using fetchPriceHistory_resolves[OF le] by blast
    from history_shape[OF r] r show ?thesis by blast
  qed
  have b: "\<exists>hist w1 r w'. fetchPriceHistory e w cat 90 = Inr (hist, w1)
         \<and> forecastPrices e w cat horizonDays = Inr (r, w')
         \<and> length (predictions r) = nat horizonDays
         \<and> (7 \<le> length (prices hist) \<longrightarrow>
              generateForecasts e w1 hist horizonDays = Inr (predictions r, w')
              \<and> currentPrice r = last (prices hist) \<and> ftrend r = trend hist
              \<and> seasonality r = detectSeasonality (prices hist)
              \<and> insights r = generateInsights e hist (predictions r) cat)
         \<and> (length (prices hist) < 7 \<longrightarrow>
              fallbackForecast e w1 cat horizonDays = Inr (r, w')
              \<and> currentPrice r = base_price basePrices_mock cat \<and> ftrend r = Stable
              \<and> seasonality r = ''Moderate''
              \<and> insights r = [UsingSimulatedData, ConnectRealSources, ConsiderMarketConditions]
              \<and> (\<forall>p\<in>set (predictions r).
                    lowerBound p = jround (jmul (predictedPrice p) (Fin 0.9))
                    \<and> upperBound p = jround (jmul (predictedPrice p) (Fin 1.1))))"
    if k: "horizonDays \<le> 96000000"
  proof -
    obtain hist w1 where h: "fetchPriceHistory e w cat 90 = Inr (hist, w1)"
      using fetchPriceHistory_resolves[of 90 e w cat] by auto
    show ?thesis
    proof (cases "length (prices hist) < 7")
      case True
      obtain r w' where f: "fallbackForecast e w1 cat horizonDays = Inr (r, w')"
        using fallbackForecast_resolves[OF k, of e w1 cat] by blast
      have "forecastPrices e w cat horizonDays = Inr (r, w')"
        using forecastPrices_short[OF h True, of horizonDays] f by simp
      then show ?thesis
        using h f True fallback_bounds[OF f k] fallbackForecast_length[OF f] by auto
    next
      case False
      then have long: "7 \<le> length (prices hist)" by simp
      then have ne: "prices hist \<noteq> []" by auto
      obtain preds w2 where g: "generateForecasts e w1 hist horizonDays = Inr (preds, w2)"
        using generateForecasts_resolves[OF k, of e w1 hist] by blast
      show ?thesis
        using h g False forecastPrices_primary[OF h long g] generateForecasts_length[OF g] ne
        by (auto simp: last_elem_def)
    qed
  qed
  have c: "\<exists>ps w'. getFallbackPrices e w cat = Inr (ps, w')
         \<and> fetchAGMARKNETPrices e w cat = Inr ((ps, False), w')
         \<and> length ps = 30
         \<and> (\<forall>p\<in>set ps. source p = ''Simulated Data'' \<and> category p = cat)
         \<and> (\<exists>h. fetchPriceHistory e w cat days = Inr (h, w')
               \<and> dates h = map date (slice_last days (sort_key date ps))
               \<and> prices h = map modalPrice (slice_last days (sort_key date ps)))"
    if m: "getFromCache (t_get e) (cache w) (cacheKey cat) = None" and s: "source_fails e"
  proof -
    obtain ps w' where g: "getFallbackPrices e w cat = Inr (ps, w')"
      using getFallbackPrices_resolves[of e w cat] by blast
    have f: "fetchAGMARKNETPrices e w cat = Inr ((ps, False), w')"
      using failure_selects_fallback[OF m s] g by (simp add: unaliased_def)
    have l: "length ps = 30" "ps \<noteq> []"
      using simulated_observations[OF g] by auto
    have "\<exists>h. fetchPriceHistory e w cat days = Inr (h, w')
               \<and> dates h = map date (slice_last days (sort_key date ps))
               \<and> prices h = map modalPrice (slice_last days (sort_key date ps))"
      using f l by (simp add: fetchPriceHistory_def history_body_def sort_in_place_def Let_def)
    then show ?thesis
      using g f simulated_observations[OF g] by blast
  qed
  have d: "\<exists>h w'. generateMockHistory e
                 (w\<lparr>cache := saveToCache (t_put e) (cache w) (cacheKey cat) []\<rparr>) cat days
                = Inr (h, w')
         \<and> fetchPriceHistory e w cat days = Inr (h, w')
         \<and> length (prices h) = nat (days + 1)"
    if m: "getFromCache (t_get e) (cache w) (cacheKey cat) = None" and s: "source_empty e"
      and k: "days \<le> 99999990"
  proof -
    obtain h w' where g: "generateMockHistory e
                 (w\<lparr>cache := saveToCache (t_put e) (cache w) (cacheKey cat) []\<rparr>) cat days
                = Inr (h, w')"
      using generateMockHistory_resolves[OF k] by blast
    then show ?thesis
      using empty_selects_mock[OF m s k] mock_shape[OF g] by auto
  qed
  from a b c d show ?thesis by blast
qed

subsection \<open>Evaluation on concrete inputs\<close>

lemmas scraper_defs = fetchPriceHistory_def history_body_def fetchAGMARKNETPrices_def fetch_body_def
  getFromCache_def saveToCache_def parseAGMARKNETResponse_def undated_def tick_0 live_env_def
  fresh_world_def obs_def or_zero_def or_text_def cacheKey_def sort_in_place_def slice_last_def
  slice_from_def

lemmas change_defs = change_of_def recentAvg_def oldAvg_def jsum_def jsub_def round2_def
  trend_of_change_def jgt_def round_half_up_def signed_inf_def slice_last_def slice_from_def

lemma steep_history:
  "value_of (fetchPriceHistory (live_env [70, 60, 50, 40, 30, 20, 10]) fresh_world ''spices'' 90)
   = Some \<lparr>dates = [1, 2, 3, 4, 5, 6, 7],
           prices = [Fin 70, Fin 60, Fin 50, Fin 40, Fin 30, Fin 20, Fin 10],
           trend = Stable, changePercent = Fin 0\<rparr>"
  by (simp add: value_of_def scraper_defs change_defs Let_def)

lemma zero_start_history:
  "value_of (fetchPriceHistory (live_env [0, 0, 0, 0, 0, 0, 0, 7]) fresh_world ''spices'' 90)
   = Some \<lparr>dates = [1, 2, 3, 4, 5, 6, 7, 8],
           prices = [Fin 0, Fin 0, Fin 0, Fin 0, Fin 0, Fin 0, Fin 0, Fin 7],
           trend = Up, changePercent = PInf\<rparr>"
  by (simp add: value_of_def scraper_defs change_defs Let_def)

lemma short_history:
  "value_of (fetchPriceHistory (live_env [5, 5, 5]) fresh_world ''spices'' 90)
   = Some \<lparr>dates = [1, 2, 3], prices = [Fin 5, Fin 5, Fin 5],
           trend = Stable, changePercent = Fin 0\<rparr>"
  by (simp add: value_of_def scraper_defs change_defs Let_def)

theorem calls_resolve_within_date_range_witness:
  "(90::int) \<le> 99999990 \<and> (7::int) \<le> 96000000
   \<and> getFromCache (t_get offline_env) (cache fresh_world) (cacheKey ''spices'') = None
   \<and> source_fails offline_env
   \<and> getFromCache (t_get (live_env [])) (cache fresh_world) (cacheKey ''spices'') = None
   \<and> source_empty (live_env [])
   \<and> (\<exists>ps w' h. fetchAGMARKNETPrices offline_env fresh_world ''spices'' = Inr ((ps, False), w')
         \<and> length ps = 30
         \<and> fetchPriceHistory offline_env fresh_world ''spices'' 90 = Inr (h, w')
         \<and> length (dates h) = 30 \<and> length (prices h) = 30)
   \<and> (\<exists>hist w1 r w'. fetchPriceHistory offline_env fresh_world ''spices'' 90 = Inr (hist, w1)
         \<and> 7 \<le> length (prices hist)
         \<and> forecastPrices offline_env fresh_world ''spices'' 7 = Inr (r, w')
         \<and> generateForecasts offline_env w1 hist 7 = Inr (predictions r, w')
         \<and> length (predictions r) = 7)
   \<and> (\<exists>hist w1 r w'. fetchPriceHistory (live_env [5, 5, 5]) fresh_world ''spices'' 90 = Inr (hist, w1)
         \<and> length (prices hist) < 7
         \<and> forecastPrices (live_env [5, 5, 5]) fresh_world ''spices'' 7 = Inr (r, w')
         \<and> insights r = [UsingSimulatedData, ConnectRealSources, ConsiderMarketConditions])
   \<and> (\<exists>h w'. fetchPriceHistory (live_env []) fresh_world ''spices'' 90 = Inr (h, w')
         \<and> length (prices h) = 91)"
proof -
  have m1: "getFromCache (t_get offline_env) (cache fresh_world) (cacheKey ''spices'') = None"
    by (simp add: getFromCache_def fresh_world_def)
  have s1: "source_fails offline_env"
    by (simp add: source_fails_def offline_env_def)
  have m2: "getFromCache (t_get (live_env [])) (cache fresh_world) (cacheKey ''spices'') = None"
    by (simp add: getFromCache_def fresh_world_def)
  have s2: "source_empty (live_env [])"
    by (simp add: source_empty_def live_env_def)
  note off = calls_resolve_within_date_range[of 90 offline_env fresh_world "''spices''" 7]
  note short = calls_resolve_within_date_range[of 90 "live_env [5, 5, 5]" fresh_world "''spices''" 7]
  note none = calls_resolve_within_date_range[of 90 "live_env []" fresh_world "''spices''" 7]
  have a: "\<exists>ps w' h. fetchAGMARKNETPrices offline_env fresh_world ''spices'' = Inr ((ps, False), w')
         \<and> length ps = 30
         \<and> fetchPriceHistory offline_env fresh_world ''spices'' 90 = Inr (h, w')
         \<and> length (dates h) = 30 \<and> length (prices h) = 30"
    using off m1 s1 by (auto simp: slice_last_short)
  then obtain hist w1 where h: "fetchPriceHistory offline_env fresh_world ''spices'' 90 = Inr (hist, w1)"
    "length (prices hist) = 30"
    by blast
  have b: "\<exists>hist w1 r w'. fetchPriceHistory offline_env fresh_world ''spices'' 90 = Inr (hist, w1)
         \<and> 7 \<le> length (prices hist)
         \<and> forecastPrices offline_env fresh_world ''spices'' 7 = Inr (r, w')
         \<and> generateForecasts offline_env w1 hist 7 = Inr (predictions r, w')
         \<and> length (predictions r) = 7"
    using off h by auto
  obtain w3 where sh: "fetchPriceHistory (live_env [5, 5, 5]) fresh_world ''spices'' 90
      = Inr (\<lparr>dates = [1, 2, 3], prices = [Fin 5, Fin 5, Fin 5],
           trend = Stable, changePercent = Fin 0\<rparr>, w3)"
    using short_history by (auto simp: value_of_Some)
  have c: "\<exists>hist w1 r w'. fetchPriceHistory (live_env [5, 5, 5]) fresh_world ''spices'' 90 = Inr (hist, w1)
         \<and> length (prices hist) < 7
         \<and> forecastPrices (live_env [5, 5, 5]) fresh_world ''spices'' 7 = Inr (r, w')
         \<and> insights r = [UsingSimulatedData, ConnectRealSources, ConsiderMarketConditions]"
    using short sh by auto
  have d: "\<exists>h w'. fetchPriceHistory (live_env []) fresh_world ''spices'' 90 = Inr (h, w')
         \<and> length (prices h) = 91"
    using none m2 s2 by auto
  from m1 s1 m2 s2 a b c d show ?thesis by simp
qed

subsection \<open>The clock during a call\<close>

lemma later_refl: "later w w"
  by (auto simp: later_def intro: exI[where x = 0])

lemma later_trans: "later w w1 \<Longrightarrow> later w1 w2 \<Longrightarrow> later w w2"
  unfolding later_def
proof -
  assume "\<exists>n. clock w1 = (\<lambda>i. clock w (i + n))" "\<exists>n. clock w2 = (\<lambda>i. clock w1 (i + n))"
  then obtain n m where "clock w1 = (\<lambda>i. clock w (i + n))" "clock w2 = (\<lambda>i. clock w1 (i + m))"
    by blast
  then have "clock w2 = (\<lambda>i. clock w (i + (m + n)))"
    by (simp add: add.assoc)
  then show "\<exists>n. clock w2 = (\<lambda>i. clock w (i + n))" by blast
qed

lemma later_tick: "later w (tick n w)"
  by (auto simp: later_def tick_def)

lemma later_same_clock: "clock w1 = clock w \<Longrightarrow> later w w1"
  by (auto simp: later_def intro: exI[where x = 0])

lemma later_tick_consume: "later w (tick n (consume m w))"
  by (auto simp: later_def tick_def consume_def)

lemma later_fetch:
  assumes "fetchAGMARKNETPrices e w cat = Inr (r, w1)"
  shows "later w w1"
proof (cases "getFromCache (t_get e) (cache w) (cacheKey cat)")
  case (Some d)
  with assms show ?thesis
    by (simp add: fetchAGMARKNETPrices_def later_refl)
next
  case None
  have p: "later w (tick n w\<lparr>cache := c\<rparr>)" for n c
    by (auto simp: later_def tick_def)
  from None assms show ?thesis
    by (auto simp: fetchAGMARKNETPrices_def fetch_body_def unaliased_def getFallbackPrices_resolves
        parseAGMARKNETResponse_def later_tick_consume later_refl p later_same_clock
        split: if_splits upstream.splits payload.splits)
qed

lemma later_mock:
  assumes "generateMockHistory e w cat days = Inr (h, w1)"
  shows "later w w1"
  using assms
  by (auto simp: generateMockHistory_def Let_def later_tick_consume split: sum.splits)

lemma later_history:
  assumes "fetchPriceHistory e w cat 90 = Inr (h, w1)"
  shows "later w w1"
proof -
  obtain ps aliased w0 where f: "fetchAGMARKNETPrices e w cat = Inr ((ps, aliased), w0)"
    using fetchAGMARKNETPrices_resolves by blast
  have a: "later w w0"
    using f by (rule later_fetch)
  have b: "later w0 w1"
  proof (cases "length ps = 0")
    case True
    then have "generateMockHistory e w0 cat 90 = Inr (h, w1)"
      using f assms generateMockHistory_resolves[of 90 e w0 cat]
      by (simp add: fetchPriceHistory_def history_body_def)
    then show ?thesis by (rule later_mock)
  next
    case False
    then have "w1 = sort_in_place aliased (cacheKey cat) (sort_key date ps) w0"
      using f assms by (simp add: fetchPriceHistory_def history_body_def Let_def)
    then show ?thesis
      by (auto simp: sort_in_place_def later_refl intro: later_same_clock split: option.splits)
  qed
  from a b show ?thesis by (rule later_trans)
qed


subsection \<open>The dates of the forecasts\<close>

lemma map_add_upto: "map (\<lambda>i. t + i) [a..b] = [t + a..t + b]"
proof (induction a b rule: upto.induct)
  case (1 i j)
  show ?case
  proof (cases "i \<le> j")
    case True
    then have "[i..j] = i # [i + 1..j]" "[t + i..t + j] = (t + i) # [t + i + 1..t + j]"
      by (simp_all add: upto_rec1)
    with True 1 show ?thesis by (simp add: add.assoc)
  next
    case False
    then show ?thesis by simp
  qed
qed






lemma later_constant_clock:
  assumes "later w w1" "clock w = (\<lambda>k. c)"
  shows "clock w1 = (\<lambda>k. c)"
  using assms by (auto simp: later_def)





subsection \<open>The forecast of a concrete history\<close>

lemma upt_0_7: "[0..<7] = [0, 1, 2, 3, 4, 5, 6]"
  by (simp add: upt_rec)

lemma replicate_7: "replicate 7 x = [x, x, x, x, x, x, x]"
  by (simp add: numeral_eq_Suc)

lemma list_update_numeral: "(x # xs)[numeral k := v] = x # xs[pred_numeral k := v]"
  by (simp add: numeral_eq_Suc)

lemma steep_trend:
  "calculateTrend [Fin 70, Fin 60, Fin 50, Fin 40, Fin 30, Fin 20, Fin 10] = (Fin (- 10), Fin 70)"
  by (simp add: calculateTrend_def jsub_def Let_def upt_0_7)

lemma steep_seasonality:
  "calculateSeasonality [Fin 70, Fin 60, Fin 50, Fin 40, Fin 30, Fin 20, Fin 10]
   = [Fin (7 / 4), Fin (3 / 2), Fin (5 / 4), Fin 1, Fin (3 / 4), Fin (1 / 2), Fin (1 / 4)]"
  by (simp add: calculateSeasonality_def jsum_def Let_def replicate_7 list_update_numeral upt_0_7)

lemma sqrt_400: "sqrt 400 = 20"
  by (rule real_sqrt_unique) simp_all

lemma steep_volatility:
  "calculateVolatility [Fin 70, Fin 60, Fin 50, Fin 40, Fin 30, Fin 20, Fin 10] = Fin 20"
  by (simp add: calculateVolatility_def jsum_def jsub_def Let_def sqrt_400)

lemma seven: "Suc (Suc (Suc (Suc (Suc (Suc (Suc 0)))))) = 7"
  by simp

lemma steep_point:
  "forecast_point d 7 (Fin (- 10), Fin 70)
     [Fin (7 / 4), Fin (3 / 2), Fin (5 / 4), Fin 1, Fin (3 / 4), Fin (1 / 2), Fin (1 / 4)] (Fin 20) 1
   = \<lparr>pdate = d, predictedPrice = Fin (- 15), confidence = High,
      lowerBound = Fin 0, upperBound = Fin 5\<rparr>"
  by (simp add: forecast_point_def Let_def jsub_def jmax_def round_half_up_def)

text \<open>On a host on UTC whose clock stands at the start of day 100, the day moved by
  \<open>i\<close> is day \<open>100 + i\<close>.\<close>

lemma utc_day:
  assumes "zone_utc e = utc" "zone_local e = utc"
  shows "moved_time e 8640000000 i div msPerDay = 100 + i"
  using assms by (simp add: moved_time_def utc_def Let_def msPerDay_def)

text \<open>
  C3 (evaluation at the failing input). The source answers with seven observations,
  70, 60, ..., 10 on consecutive days, and the forecast is asked for one day. The trend
  line is at -10 on day 8, the seasonal factor of that day is 3/2, and the prediction is
  -15: it is negative, and the lower bound, clamped at 0, is above it.
\<close>

theorem negative_prediction_above_lower_bound:
  "map_option predictions
     (value_of (forecastPrices (live_env [70, 60, 50, 40, 30, 20, 10]) fresh_world ''spices'' 1))
   = Some [\<lparr>pdate = 101, predictedPrice = Fin (- 15), confidence = High,
            lowerBound = Fin 0, upperBound = Fin 5\<rparr>]"
proof -
  let ?e = "live_env [70, 60, 50, 40, 30, 20, 10]"
  let ?h = "\<lparr>dates = [1, 2, 3, 4, 5, 6, 7],
           prices = [Fin 70, Fin 60, Fin 50, Fin 40, Fin 30, Fin 20, Fin 10],
           trend = Stable, changePercent = Fin 0\<rparr>"
  obtain w1 where h: "fetchPriceHistory ?e fresh_world ''spices'' 90 = Inr (?h, w1)"
    using steep_history by (auto simp: value_of_Some)
  have c: "clock w1 = (\<lambda>k. 8640000000)"
    using later_history[OF h] by (rule later_constant_clock) (simp add: fresh_world_def)
  have z: "zone_utc ?e = utc" "zone_local ?e = utc"
    by (simp_all add: live_env_def)
  have g: "generateForecasts ?e w1 ?h 1
      = Inr ([\<lparr>pdate = 101, predictedPrice = Fin (- 15), confidence = High,
               lowerBound = Fin 0, upperBound = Fin 5\<rparr>], tick (nat 1) w1)"
    using generateForecasts_resolves[of 1 ?e w1 ?h]
    by (simp add: c utc_day[OF z] steep_trend steep_seasonality steep_volatility steep_point seven)
  show ?thesis
    using forecastPrices_primary[OF h _ g] by (simp add: value_of_def)
qed

subsection \<open>The simulated history\<close>

lemma map_int_upt: "map int [0..<n] = [0..int n - 1]"
proof (induction n)
  case 0
  show ?case by simp
next
  case (Suc n)
  have "[0..int (Suc n) - 1] = [0..int n - 1] @ [int n]"
    using upto_rec2[of 0 "int n"] by simp
  with Suc show ?case by simp
qed

lemma rev_shift_upto: "map (\<lambda>k. t - (d - int k)) [0..<nat (d + 1)] = [t - d..t]"
proof -
  have "map (\<lambda>k. t - (d - int k)) [0..<nat (d + 1)] = map (\<lambda>i. (t - d) + i) (map int [0..<nat (d + 1)])"
    by (simp add: comp_def algebra_simps)
  also have "map int [0..<nat (d + 1)] = [0..d]"
    by (cases "0 \<le> d + 1") (simp_all add: map_int_upt)
  also have "map (\<lambda>i. (t - d) + i) [0..d] = [t - d..t]"
    by (simp add: map_add_upto)
  finally show ?thesis .
qed

lemma empty_source_history:
  assumes "days \<le> 99999990"
  shows "fetchPriceHistory (live_env []) fresh_world cat days
     = generateMockHistory (live_env [])
         (fresh_world\<lparr>cache := saveToCache 1 Map.empty (cacheKey cat) []\<rparr>) cat days"
  using empty_selects_mock[of "live_env []" fresh_world cat days] assms
  by (simp add: getFromCache_def fresh_world_def source_empty_def live_env_def)

lemma empty_source_dates:
  assumes "days \<le> 99999990"
  shows "map_option dates (value_of (fetchPriceHistory (live_env []) fresh_world cat days))
     = Some [100 - days..100]"
proof -
  let ?w = "fresh_world\<lparr>cache := saveToCache 1 Map.empty (cacheKey cat) []\<rparr>"
  have z: "zone_utc (live_env []) = utc" "zone_local (live_env []) = utc"
    by (simp_all add: live_env_def)
  have c: "uint (clock ?w k) = 8640000000" for k
    by (simp add: fresh_world_def)
  have "(\<lambda>k. 100 + - (days - int k)) = (\<lambda>k. 100 - (days - int k))"
    by (rule ext) simp
  then have "map (\<lambda>k. 100 + - (days - int k)) [0..<nat (days + 1)] = [100 - days..100]"
    by (simp only: rev_shift_upto)
  then have "map (\<lambda>k. moved_time (live_env []) (uint (clock ?w k)) (- (days - int k)) div msPerDay)
                     [0..<nat (days + 1)] = [100 - days..100]"
    by (simp only: c utc_day[OF z])
  then show ?thesis
    unfolding empty_source_history[OF assms] generateMockHistory_resolves[OF assms] value_of_def
    by simp
qed

text \<open>
  C4 (evaluation on the simulated path). When the configured source answers with no
  record, \<open>fetchPriceHistory\<close> returns the simulated history, and the simulated history
  for \<open>days\<close> has \<open>days + 1\<close> points, dated from \<open>days\<close> days ago to today: two points
  for one day, one more than the day count allows. (The day count is taken up to
  99,999,990, where the dates stay in the range of a date.)
\<close>

theorem mock_history_one_point_more:
  "map_option (length \<circ> prices)
       (value_of (fetchPriceHistory (live_env []) fresh_world ''spices'' 1)) = Some 2
   \<and> map_option dates
       (value_of (fetchPriceHistory (live_env []) fresh_world ''spices'' 1)) = Some [99, 100]
   \<and> (days \<le> 99999990 \<longrightarrow>
        fetchPriceHistory (live_env []) fresh_world cat days
          = generateMockHistory (live_env [])
              (fresh_world\<lparr>cache := saveToCache 1 Map.empty (cacheKey cat) []\<rparr>) cat days
        \<and> map_option dates (value_of (fetchPriceHistory (live_env []) fresh_world cat days))
            = Some [100 - days..100]
        \<and> (\<exists>h w'. generateMockHistory e w cat days = Inr (h, w')
              \<and> length (prices h) = nat (days + 1) \<and> length (dates h) = nat (days + 1)))"
proof -
  have one: "(1::int) \<le> 99999990"
    by simp
  have d1: "map_option dates
       (value_of (fetchPriceHistory (live_env []) fresh_world ''spices'' 1)) = Some [99, 100]"
    using empty_source_dates[OF one, of "''spices''"] by (simp add: upto_rec1)
  then obtain h w' where h: "fetchPriceHistory (live_env []) fresh_world ''spices'' 1 = Inr (h, w')"
    "dates h = [99, 100]"
    by (auto simp: value_of_Some)
  have "length (prices h) = 2"
    using history_shape[OF h(1)] h(2) by simp
  then have l1: "map_option (length \<circ> prices)
       (value_of (fetchPriceHistory (live_env []) fresh_world ''spices'' 1)) = Some 2"
    using h(1) by (simp add: value_of_def)
  have g: "\<exists>h w'. generateMockHistory e w cat days = Inr (h, w')
              \<and> length (prices h) = nat (days + 1) \<and> length (dates h) = nat (days + 1)"
    if "days \<le> 99999990"
    by (simp add: generateMockHistory_resolves[OF that])
  show ?thesis
    using d1 l1 g empty_source_history[of days cat] empty_source_dates[of days cat] by blast
qed

theorem mock_history_one_point_more_witness:
  "(1::int) \<le> 99999990
   \<and> map_option dates (value_of (fetchPriceHistory (live_env []) fresh_world ''spices'' 1))
       = Some [100 - 1..100]
   \<and> (\<exists>h w'. generateMockHistory (live_env []) fresh_world ''spices'' 1 = Inr (h, w')
         \<and> length (prices h) = nat (1 + 1) \<and> length (dates h) = nat (1 + 1))"
proof -
  have one: "(1::int) \<le> 99999990"
    by simp
  show ?thesis
    using mock_history_one_point_more[of 1 "''spices''" "live_env []" fresh_world] one
    by blast
qed

subsection \<open>Series of finite prices\<close>

lemma foldl_jadd_Fin: "foldl jadd (Fin a) (map Fin xs) = Fin (a + sum_list xs)"
  by (induction xs arbitrary: a) (simp_all add: add.assoc)

lemma jsum_Fin: "jsum (map Fin xs) = Fin (sum_list xs)"
  by (simp add: jsum_def foldl_jadd_Fin)

lemma slice_last_map: "slice_last k (map f xs) = map f (slice_last k xs)"
  by (simp add: slice_last_def slice_from_def drop_map)

lemma change_of_zero_old:
  assumes "sum_list (take 7 xs) = 0"
  shows "change_of (map Fin xs) =
           (if sum_list (slice_last 7 xs) = 0 then NaN
            else if 0 < sum_list (slice_last 7 xs) then PInf else NInf)"
proof -
  have "jsum (take 7 (map Fin xs)) = Fin 0"
    using assms jsum_Fin[of "take 7 xs"] by (simp add: take_map)
  then show ?thesis
    by (simp add: change_of_def recentAvg_def oldAvg_def slice_last_map jsum_Fin jsub_def
        signed_inf_def)
qed

text \<open>
  C5 (the claim fails). Seven observations at price 0 followed by one at price 7: the
  average of the earliest window is 0, and the history returned has an infinite change
  in percent and the trend \<open>up\<close>, not 0 and \<open>stable\<close>.
\<close>

theorem zero_old_average_counterexample:
  "jdiv (jsum (take 7 [Fin 0, Fin 0, Fin 0, Fin 0, Fin 0, Fin 0, Fin 0, Fin 7])) (Fin 7) = Fin 0
   \<and> value_of (fetchPriceHistory (live_env [0, 0, 0, 0, 0, 0, 0, 7]) fresh_world ''spices'' 90)
       = Some \<lparr>dates = [1, 2, 3, 4, 5, 6, 7, 8],
               prices = [Fin 0, Fin 0, Fin 0, Fin 0, Fin 0, Fin 0, Fin 0, Fin 7],
               trend = Up, changePercent = PInf\<rparr>"
  using zero_start_history by (simp add: jsum_def)

text \<open>
  C5 (amended). The division by the old average is not guarded. For a series of finite
  prices whose earliest window sums to 0, the history that \<open>fetchPriceHistory\<close> returns
  has the change \<open>NaN\<close> and the trend \<open>stable\<close> when the most recent window sums to 0 too,
  the change \<open>+\<infinity>\<close> and the trend \<open>up\<close> when it sums to a positive value, and the change
  \<open>-\<infinity>\<close> and the trend \<open>down\<close> when it sums to a negative one.
\<close>

theorem zero_old_average_unguarded:
  assumes "value_of (fetchPriceHistory e w cat days) = Some h"
    and "prices h = map Fin xs"
    and "sum_list (take 7 xs) = 0"
  shows "changePercent h =
           (if sum_list (slice_last 7 xs) = 0 then NaN
            else if 0 < sum_list (slice_last 7 xs) then PInf else NInf)
       \<and> trend h =
           (if sum_list (slice_last 7 xs) = 0 then Stable
            else if 0 < sum_list (slice_last 7 xs) then Up else Down)"
proof -
  obtain w' where "fetchPriceHistory e w cat days = Inr (h, w')"
    using assms(1) by (auto simp: value_of_Some)
  from history_shape[OF this] show ?thesis
    by (simp add: assms(2) change_of_zero_old[OF assms(3)] round2_def trend_of_change_def
        jgt_def signed_inf_def)
qed

theorem zero_old_average_unguarded_witness:
  "value_of (fetchPriceHistory (live_env [0, 0, 0, 0, 0, 0, 0, 7]) fresh_world ''spices'' 90)
     = Some \<lparr>dates = [1, 2, 3, 4, 5, 6, 7, 8],
             prices = [Fin 0, Fin 0, Fin 0, Fin 0, Fin 0, Fin 0, Fin 0, Fin 7],
             trend = Up, changePercent = PInf\<rparr>
   \<and> [Fin 0, Fin 0, Fin 0, Fin 0, Fin 0, Fin 0, Fin 0, Fin 7] = map Fin [0, 0, 0, 0, 0, 0, 0, 7]
   \<and> sum_list (take 7 [0, 0, 0, 0, 0, 0, 0, 7 :: real]) = 0
   \<and> 0 < sum_list (slice_last 7 [0, 0, 0, 0, 0, 0, 0, 7 :: real])
   \<and> changePercent \<lparr>dates = [1, 2, 3, 4, 5, 6, 7, 8],
             prices = [Fin 0, Fin 0, Fin 0, Fin 0, Fin 0, Fin 0, Fin 0, Fin 7],
             trend = Up, changePercent = PInf\<rparr> = PInf"
proof -
  have s: "sum_list (take 7 [0, 0, 0, 0, 0, 0, 0, 7 :: real]) = 0"
    by simp
  have r: "0 < sum_list (slice_last 7 [0, 0, 0, 0, 0, 0, 0, 7 :: real])"
    by (simp add: slice_last_def slice_from_def)
  show ?thesis
    using zero_old_average_unguarded[OF zero_start_history _ s] zero_start_history s r
    by simp
qed

subsection \<open>The two ways of averaging\<close>








text \<open>
  C7 (the claim fails). With the horizon 0, \<open>forecastPrices\<close> resolves with a forecast
  that has no prediction; with the day count 0, \<open>fetchPriceHistory\<close> resolves with a
  history (over all thirty simulated observations, since \<open>slice(-0)\<close> keeps the whole array).
\<close>

theorem non_positive_argument_counterexample:
  "map_option predictions (value_of (forecastPrices offline_env fresh_world ''spices'' 0)) = Some []
   \<and> map_option (length \<circ> dates)
         (value_of (fetchPriceHistory offline_env fresh_world ''spices'' 0)) = Some 30"
proof -
  obtain r w' where "forecastPrices offline_env fresh_world ''spices'' 0 = Inr (r, w')"
    "length (predictions r) = nat 0"
    using forecastPrices_resolves[of 0 offline_env fresh_world "''spices''"] by auto
  then have a: "map_option predictions
      (value_of (forecastPrices offline_env fresh_world ''spices'' 0)) = Some []"
    by (simp add: value_of_def)
  obtain ps w1 where g: "getFallbackPrices offline_env fresh_world ''spices'' = Inr (ps, w1)"
    using getFallbackPrices_resolves[of offline_env fresh_world "''spices''"] by blast
  have "fetchAGMARKNETPrices offline_env fresh_world ''spices'' = Inr ((ps, False), w1)"
    using failure_selects_fallback[of offline_env fresh_world "''spices''"] g
    by (simp add: getFromCache_def fresh_world_def source_fails_def offline_env_def unaliased_def)
  moreover have "length ps = 30" "ps \<noteq> []"
    using simulated_observations[OF g] by auto
  ultimately have b: "map_option (length \<circ> dates)
      (value_of (fetchPriceHistory offline_env fresh_world ''spices'' 0)) = Some 30"
    by (simp add: value_of_def fetchPriceHistory_def history_body_def slice_last_def
        slice_from_def Let_def)
  from a b show ?thesis by simp
qed

text \<open>
  C7 (amended). The arguments are not validated. For a non-positive horizon
  \<open>forecastPrices\<close> resolves with a forecast without predictions, and for a non-positive
  day count \<open>fetchPriceHistory\<close> resolves with a history; neither signals an error.
\<close>

theorem non_positive_argument_resolves:
  "(horizonDays \<le> 0 \<longrightarrow>
      (\<exists>r w'. forecastPrices e w cat horizonDays = Inr (r, w') \<and> predictions r = []))
   \<and> (days \<le> 0 \<longrightarrow> (\<exists>h w'. fetchPriceHistory e w cat days = Inr (h, w')))"
  using forecastPrices_resolves[of horizonDays e w cat] fetchPriceHistory_resolves[of days e w cat]
  by auto

theorem non_positive_argument_resolves_witness:
  "(0::int) \<le> 0
   \<and> (\<exists>r w'. forecastPrices offline_env fresh_world ''spices'' 0 = Inr (r, w') \<and> predictions r = [])
   \<and> (\<exists>h w'. fetchPriceHistory offline_env fresh_world ''spices'' 0 = Inr (h, w'))"
  using non_positive_argument_resolves[of 0 offline_env fresh_world "''spices''" 0] by simp

subsection \<open>The near-term forecast change\<close>














subsection \<open>Calls on a warm cache\<close>

lemma sort_key_twice: "sort_key f (sort_key f xs) = sort_key f xs"
  by (rule sort_key_id_if_sorted) simp

lemma hit_call:
  assumes "cache w (cacheKey cat) = Some ent"
    and "t_get e - timestamp ent < cacheExpiry"
    and "data ent \<noteq> []"
    and "sort_key date (data ent) = data ent"
  shows "fetchPriceHistory e w cat days =
     Inr (\<lparr>dates = map date (slice_last days (data ent)),
           prices = map modalPrice (slice_last days (data ent)),
           trend = trend_of_change (change_of (map modalPrice (slice_last days (data ent)))),
           changePercent = round2 (change_of (map modalPrice (slice_last days (data ent))))\<rparr>, w)"
proof -
  have "(cache w)(cacheKey cat \<mapsto> ent) = cache w"
    using assms(1) by (rule map_upd_triv)
  then show ?thesis
    using assms
    by (simp add: fetchPriceHistory_def history_body_def fetchAGMARKNETPrices_def
        getFromCache_def sort_in_place_def Let_def)
qed

lemma mock_keeps_cache:
  assumes "fetchAGMARKNETPrices e w cat = Inr ((ps, aliased), w')" "length ps = 0"
    and "fetchPriceHistory e w cat days = Inr (h, w1)"
  shows "cache w1 = cache w'"
proof (cases "generateMockHistory e w' cat days")
  case (Inr r)
  then have "generateMockHistory e w' cat days = Inr (h, w1)"
    using assms by (simp add: fetchPriceHistory_def history_body_def)
  then show ?thesis
    using mock_shape by blast
next
  case (Inl a)
  then obtain err w2 where a: "generateMockHistory e w' cat days = Inl (err, w2)"
    by (cases a) auto
  then have "generateMockHistory e w2 cat days = Inr (h, w1)"
    using assms by (simp add: fetchPriceHistory_def history_body_def)
  then have "cache w1 = cache w2"
    using mock_shape by blast
  then show ?thesis
    using mock_error_keeps_cache[OF a] by simp
qed

lemma first_call:
  assumes "fetchPriceHistory e1 w0 cat days = Inr (h1, w1)"
    and "cache w1 (cacheKey cat) = Some ent"
    and "data ent \<noteq> []"
    and "t_get e2 - timestamp ent < cacheExpiry"
    and "t_get e1 \<le> t_get e2"
  shows "sort_key date (data ent) = data ent
     \<and> h1 = \<lparr>dates = map date (slice_last days (data ent)),
           prices = map modalPrice (slice_last days (data ent)),
           trend = trend_of_change (change_of (map modalPrice (slice_last days (data ent)))),
           changePercent = round2 (change_of (map modalPrice (slice_last days (data ent))))\<rparr>"
proof -
  obtain ps aliased w' where f: "fetchAGMARKNETPrices e1 w0 cat = Inr ((ps, aliased), w')"
    using fetchAGMARKNETPrices_resolves by blast
  have stale: "\<not> aliased \<Longrightarrow> cache w' = cache w0
      \<and> getFromCache (t_get e1) (cache w0) (cacheKey cat) = None"
    using f
    by (auto simp: fetchAGMARKNETPrices_def fetch_body_def Let_def unaliased_def
        getFallbackPrices_resolves tick_def consume_def
        split: option.splits if_splits prod.splits upstream.splits sum.splits)
  have held: "aliased \<Longrightarrow> \<exists>c. cache w' (cacheKey cat) = Some c \<and> data c = ps"
    using f
    by (auto simp: fetchAGMARKNETPrices_def fetch_body_def getFromCache_def saveToCache_def Let_def
        unaliased_def getFallbackPrices_resolves
        split: option.splits if_splits prod.splits upstream.splits sum.splits)
  show ?thesis
  proof (cases "length ps = 0")
    case True
    have c: "cache w1 = cache w'"
      by (rule mock_keeps_cache[OF f True assms(1)])
    show ?thesis
    proof (cases aliased)
      case True
      with held c assms(2,3) \<open>length ps = 0\<close> show ?thesis by auto
    next
      case False
      with stale c assms(2,4,5) show ?thesis
        by (auto simp: getFromCache_def split: if_splits)
    qed
  next
    case False
    with f assms(1) have r: "h1 = \<lparr>dates = map date (slice_last days (sort_key date ps)),
           prices = map modalPrice (slice_last days (sort_key date ps)),
           trend = trend_of_change (change_of (map modalPrice (slice_last days (sort_key date ps)))),
           changePercent = round2 (change_of (map modalPrice (slice_last days (sort_key date ps))))\<rparr>"
      and w: "w1 = sort_in_place aliased (cacheKey cat) (sort_key date ps) w'"
      by (auto simp: fetchPriceHistory_def history_body_def Let_def)
    show ?thesis
    proof (cases aliased)
      case True
      with held w assms(2) have "data ent = sort_key date ps"
        by (auto simp: sort_in_place_def)
      with r show ?thesis by (simp add: sort_key_twice)
    next
      case False
      with w have "cache w1 = cache w'" by (simp add: sort_in_place_def)
      with False stale assms(2,4,5) show ?thesis
        by (auto simp: getFromCache_def split: if_splits)
    qed
  qed
qed

lemma world_of_Inr: "world_of (Inr (x, w)) = w"
  by (simp add: world_of_def)

text \<open>The simulated observations of a state, as \<open>getFallbackPrices\<close> returns them.\<close>

lemma fallback_history:
  assumes "cache w = Map.empty" and "source_fails e"
    and "getFallbackPrices e w ''spices'' = Inr (ps, w')"
  shows "fetchPriceHistory e w ''spices'' 90
     = Inr (\<lparr>dates = map date (sort_key date ps),
             prices = map modalPrice (sort_key date ps),
             trend = trend_of_change (change_of (map modalPrice (sort_key date ps))),
             changePercent = round2 (change_of (map modalPrice (sort_key date ps)))\<rparr>, w')"
proof -
  have f: "fetchAGMARKNETPrices e w ''spices'' = Inr ((ps, False), w')"
    using failure_selects_fallback[of e w "''spices''"] assms
    by (simp add: getFromCache_def unaliased_def)
  have l: "length ps = 30"
    using simulated_observations[OF assms(3)] by simp
  then have "slice_last 90 (sort_key date ps) = sort_key date ps"
    by (simp add: slice_last_short)
  moreover from l have "ps \<noteq> []"
    by auto
  ultimately show ?thesis
    using f by (simp add: fetchPriceHistory_def history_body_def sort_in_place_def Let_def)
qed

lemma spices_base: "base_price basePrices_fallback ''spices'' = Fin 150"
  by (simp add: base_price_def basePrices_fallback_def toLowerCase_def lower_char_def)

lemma fallback_prices_set:
  assumes "getFallbackPrices e w ''spices'' = Inr (ps, w')"
  shows "set (map modalPrice (sort_key date ps))
     = (\<lambda>i. Fin (of_int (round_half_up
          (150 * (1 + (rnd w i - 0.5) * 0.2 + sin (real i / 30 * pi) * 0.1 + real i * 0.002)))))
       ` {0..<30}"
  using assms
  by (auto simp: getFallbackPrices_resolves simulated_point_def spices_base Let_def image_image
      simp del: upt_rec_numeral)

lemma sin_step_nonneg: "i < 30 \<Longrightarrow> 0 \<le> sin (real i / 30 * pi)"
proof (rule sin_ge_zero)
  show "0 \<le> real i / 30 * pi" by simp
  assume "i < 30"
  then have "real i / 30 \<le> 1" by simp
  then show "real i / 30 * pi \<le> pi"
    by (metis mult_le_cancel_right2 pi_gt_zero less_irrefl order_less_trans linorder_not_le)
qed

text \<open>
  C8 (the claim fails). The source is not configured and the cache is empty. The first
  call draws its thirty random values, returns simulated prices that are all at least
  150 and leaves the cache empty; the second call, thirty seconds later, draws again
  and returns a history that holds the price 135.
\<close>

theorem fallback_not_cached_counterexample:
  "Fin 135 \<notin> set (resolved_prices (fetchPriceHistory offline_env two_draws ''spices'' 90))
   \<and> cache (world_of (fetchPriceHistory offline_env two_draws ''spices'' 90)) = Map.empty
   \<and> t_get later_env - t_get offline_env < cacheExpiry
   \<and> Fin 135 \<in> set (resolved_prices (fetchPriceHistory later_env
         (world_of (fetchPriceHistory offline_env two_draws ''spices'' 90)) ''spices'' 90))"
proof -
  have c0: "cache two_draws = Map.empty"
    by (simp add: two_draws_def)
  have f0: "source_fails offline_env" and f1: "source_fails later_env"
    by (simp_all add: source_fails_def offline_env_def later_env_def)
  obtain ps1 where g1: "getFallbackPrices offline_env two_draws ''spices''
      = Inr (ps1, tick 30 (consume 30 two_draws))"
    using getFallbackPrices_resolves[of offline_env two_draws "''spices''"] by blast
  let ?w1 = "tick 30 (consume 30 two_draws)"
  obtain ps2 where g2: "getFallbackPrices later_env ?w1 ''spices''
      = Inr (ps2, tick 30 (consume 30 ?w1))"
    using getFallbackPrices_resolves[of later_env ?w1 "''spices''"] by blast
  have w1: "world_of (fetchPriceHistory offline_env two_draws ''spices'' 90) = ?w1"
    by (simp add: fallback_history[OF c0 f0 g1] world_of_Inr)
  have c1: "cache ?w1 = Map.empty"
    by (simp add: tick_def consume_def c0)
  have r1: "rnd ?w1 0 = 0"
    by (simp add: tick_def consume_def two_draws_def)
  have a: "Fin 135 \<notin> set (resolved_prices (fetchPriceHistory offline_env two_draws ''spices'' 90))"
  proof -
    have "round_half_up (150 * (1 + (rnd two_draws i - 0.5) * 0.2
              + sin (real i / 30 * pi) * 0.1 + real i * 0.002)) \<noteq> 135" if "i < 30" for i
    proof -
      have "0 \<le> sin (real i / 30 * pi)"
        using that by (rule sin_step_nonneg)
      then have "150 \<le> 150 * (1 + (rnd two_draws i - 0.5) * 0.2
              + sin (real i / 30 * pi) * 0.1 + real i * 0.002)"
        using that by (simp add: two_draws_def)
      then have "150 \<le> round_half_up (150 * (1 + (rnd two_draws i - 0.5) * 0.2
              + sin (real i / 30 * pi) * 0.1 + real i * 0.002))"
        unfolding round_half_up_def by linarith
      then show ?thesis by simp
    qed
    then show ?thesis
      by (auto simp: resolved_prices_def value_of_def fallback_history[OF c0 f0 g1]
          fallback_prices_set[OF g1] simp del: set_map)
  qed
  have b: "Fin 135 \<in> set (resolved_prices (fetchPriceHistory later_env ?w1 ''spices'' 90))"
  proof -
    have "round_half_up (150 * (1 + (rnd ?w1 0 - 0.5) * 0.2
              + sin (real (0::nat) / 30 * pi) * 0.1 + real (0::nat) * 0.002)) = 135"
      by (simp add: r1 round_half_up_def)
    then have "Fin 135 \<in> (\<lambda>i. Fin (of_int (round_half_up
          (150 * (1 + (rnd ?w1 i - 0.5) * 0.2 + sin (real i / 30 * pi) * 0.1 + real i * 0.002)))))
       ` {0..<30}"
      by (intro image_eqI[where x = 0]) simp_all
    then show ?thesis
      by (simp add: resolved_prices_def value_of_def fallback_history[OF c1 f1 g2]
          fallback_prices_set[OF g2] del: set_map)
  qed
  have t: "t_get later_env - t_get offline_env < cacheExpiry"
    by (simp add: later_env_def offline_env_def cacheExpiry_def)
  from a b c1 w1 t show ?thesis by simp
qed

text \<open>
  C8 (amended). Only the observations of a successful live fetch are saved in the
  cache. If, after a first call, the cache holds for the category a non-empty entry that
  is younger than one hour at the time of a second call, and the clock has not gone
  back, the second call with the same day count returns the history the first call
  returned and leaves the state as it is, whatever the source does then.
\<close>

theorem warm_cache_same_history:
  assumes "fetchPriceHistory e1 w0 cat days = Inr (h1, w1)"
    and "cache w1 (cacheKey cat) = Some ent"
    and "data ent \<noteq> []"
    and "t_get e2 - timestamp ent < cacheExpiry"
    and "t_get e1 \<le> t_get e2"
  shows "fetchPriceHistory e2 w1 cat days = Inr (h1, w1)"
  using first_call[OF assms] hit_call[OF assms(2) assms(4) assms(3), of days] by simp

theorem warm_cache_same_history_witness:
  "value_of (fetchPriceHistory (live_env [70, 60, 50, 40, 30, 20, 10]) fresh_world ''spices'' 90)
     = Some \<lparr>dates = [1, 2, 3, 4, 5, 6, 7],
             prices = [Fin 70, Fin 60, Fin 50, Fin 40, Fin 30, Fin 20, Fin 10],
             trend = Stable, changePercent = Fin 0\<rparr>
   \<and> map_option timestamp
         (cache (world_of (fetchPriceHistory (live_env [70, 60, 50, 40, 30, 20, 10])
                             fresh_world ''spices'' 90)) (cacheKey ''spices'')) = Some 1
   \<and> t_get later_env - 1 < cacheExpiry
   \<and> t_get (live_env [70, 60, 50, 40, 30, 20, 10]) \<le> t_get later_env
   \<and> value_of (fetchPriceHistory later_env
         (world_of (fetchPriceHistory (live_env [70, 60, 50, 40, 30, 20, 10])
                      fresh_world ''spices'' 90)) ''spices'' 90)
     = Some \<lparr>dates = [1, 2, 3, 4, 5, 6, 7],
             prices = [Fin 70, Fin 60, Fin 50, Fin 40, Fin 30, Fin 20, Fin 10],
             trend = Stable, changePercent = Fin 0\<rparr>"
proof -
  let ?e1 = "live_env [70, 60, 50, 40, 30, 20, 10]"
  let ?h = "\<lparr>dates = [1, 2, 3, 4, 5, 6, 7],
             prices = [Fin 70, Fin 60, Fin 50, Fin 40, Fin 30, Fin 20, Fin 10],
             trend = Stable, changePercent = Fin 0\<rparr>"
  let ?w1 = "world_of (fetchPriceHistory ?e1 fresh_world ''spices'' 90)"
  have first: "fetchPriceHistory ?e1 fresh_world ''spices'' 90 = Inr (?h, ?w1)"
    using steep_history by (auto simp: value_of_Some world_of_Inr)
  obtain ent where ent: "cache ?w1 (cacheKey ''spices'') = Some ent"
    "timestamp ent = 1" "data ent \<noteq> []"
    by (simp add: world_of_def scraper_defs Let_def)
  have fresh: "t_get later_env - timestamp ent < cacheExpiry"
    by (simp add: ent(2) later_env_def cacheExpiry_def)
  have mono: "t_get ?e1 \<le> t_get later_env"
    by (simp add: live_env_def later_env_def)
  have "fetchPriceHistory later_env ?w1 ''spices'' 90 = Inr (?h, ?w1)"
    by (rule warm_cache_same_history[OF first ent(1) ent(3) fresh mono])
  then show ?thesis
    using steep_history ent fresh mono by (simp add: value_of_def)
qed

subsection \<open>Widths on a concrete history\<close>

lemma dip_history_fetched:
  "value_of (fetchPriceHistory (live_env [11, 13, 12, 9, 8, 10, 7]) fresh_world ''spices'' 90)
   = Some dip_history"
  by (simp add: value_of_def scraper_defs change_defs dip_history_def Let_def)

lemma dip_trend: "calculateTrend (prices dip_history) = (Fin (- (11 / 14)), Fin (173 / 14))"
  by (simp add: calculateTrend_def dip_history_def jsub_def Let_def upt_0_7)

lemma dip_seasonality:
  "calculateSeasonality (prices dip_history)
   = [Fin (11 / 10), Fin (13 / 10), Fin (6 / 5), Fin (9 / 10), Fin (4 / 5), Fin 1, Fin (7 / 10)]"
  by (simp add: calculateSeasonality_def dip_history_def jsum_def Let_def replicate_7
      list_update_numeral upt_0_7)

lemma dip_volatility: "calculateVolatility (prices dip_history) = Fin 2"
  by (simp add: calculateVolatility_def dip_history_def jsum_def jsub_def Let_def)

lemma sqrt_9: "sqrt 9 = 3"
  by (rule real_sqrt_unique) simp_all

lemma dip_point_4:
  "forecast_point d 7 (Fin (- (11 / 14)), Fin (173 / 14))
     [Fin (11 / 10), Fin (13 / 10), Fin (6 / 5), Fin (9 / 10), Fin (4 / 5), Fin 1, Fin (7 / 10)]
     (Fin 2) 4
   = \<lparr>pdate = d, predictedPrice = Fin 3, confidence = High,
      lowerBound = Fin 0, upperBound = Fin 7\<rparr>"
  by (simp add: forecast_point_def Let_def jsub_def jmax_def round_half_up_def)

lemma dip_point_9:
  "forecast_point d 7 (Fin (- (11 / 14)), Fin (173 / 14))
     [Fin (11 / 10), Fin (13 / 10), Fin (6 / 5), Fin (9 / 10), Fin (4 / 5), Fin 1, Fin (7 / 10)]
     (Fin 2) 9
   = \<lparr>pdate = d, predictedPrice = Fin 0, confidence = Medium,
      lowerBound = Fin 0, upperBound = Fin 6\<rparr>"
  by (simp add: forecast_point_def Let_def jsub_def jmax_def round_half_up_def sqrt_9)

lemma nth_generateForecasts:
  assumes "generateForecasts e w h k = Inr (preds, w')" "1 \<le> i" "i \<le> k"
  shows "\<exists>d. preds ! nat (i - 1)
     = forecast_point d (length (prices h)) (calculateTrend (prices h))
         (calculateSeasonality (prices h)) (calculateVolatility (prices h)) i"
proof -
  have l: "loop (forecast_step e w (length (prices h)) (calculateTrend (prices h))
      (calculateSeasonality (prices h)) (calculateVolatility (prices h))) [1..k] = Inr preds"
    using assms(1) by (auto simp: generateForecasts_def Let_def split: sum.splits)
  have "nat (i - 1) < length [1..k]" "[1..k] ! nat (i - 1) = i"
    using assms(2,3) by simp_all
  with loop_nth[OF l, of "nat (i - 1)"]
  have "forecast_step e w (length (prices h)) (calculateTrend (prices h))
      (calculateSeasonality (prices h)) (calculateVolatility (prices h)) i
      = Inr (preds ! nat (i - 1))"
    by simp
  then obtain d where "forecast_point d (length (prices h)) (calculateTrend (prices h))
      (calculateSeasonality (prices h)) (calculateVolatility (prices h)) i = preds ! nat (i - 1)"
    by (auto simp: forecast_step_def split: sum.splits)
  then show ?thesis
    by (intro exI[of _ d]) simp
qed

lemma dip_widths:
  assumes "generateForecasts e w dip_history 9 = Inr (preds, w')"
  shows "width (preds ! nat (4 - 1)) = Fin 7" "width (preds ! nat (9 - 1)) = Fin 6"
proof -
  have l: "length (prices dip_history) = 7"
    by (simp add: dip_history_def)
  show "width (preds ! nat (4 - 1)) = Fin 7"
    using nth_generateForecasts[OF assms, of 4]
    by (auto simp: l dip_trend dip_seasonality dip_volatility dip_point_4 width_def jsub_def)
  show "width (preds ! nat (9 - 1)) = Fin 6"
    using nth_generateForecasts[OF assms, of 9]
    by (auto simp: l dip_trend dip_seasonality dip_volatility dip_point_9 width_def jsub_def)
qed

text \<open>
  C9 (the claim fails). The source answers with the seven observations 11, 13, 12, 9,
  8, 10, 7 and the forecast is asked for nine days. The volatility is 2. At offset 4 the
  prediction is 3 with the bounds 0 and 7; at offset 9 the prediction is 0 with the
  bounds 0 and 6: the lower bound is clamped at both offsets, and the width falls from 7
  to 6.
\<close>

theorem width_shrinks_counterexample:
  "width_at (forecastPrices (live_env [11, 13, 12, 9, 8, 10, 7]) fresh_world ''spices'' 9) 4 = Fin 7
   \<and> width_at (forecastPrices (live_env [11, 13, 12, 9, 8, 10, 7]) fresh_world ''spices'' 9) 9 = Fin 6
   \<and> \<not> jle (width_at (forecastPrices (live_env [11, 13, 12, 9, 8, 10, 7]) fresh_world ''spices'' 9) 4)
           (width_at (forecastPrices (live_env [11, 13, 12, 9, 8, 10, 7]) fresh_world ''spices'' 9) 9)"
proof -
  obtain w1 where h: "fetchPriceHistory (live_env [11, 13, 12, 9, 8, 10, 7]) fresh_world ''spices'' 90
      = Inr (dip_history, w1)"
    using dip_history_fetched by (auto simp: value_of_Some)
  have l: "7 \<le> length (prices dip_history)"
    by (simp add: dip_history_def)
  obtain preds w2 where g: "generateForecasts (live_env [11, 13, 12, 9, 8, 10, 7]) w1 dip_history 9
      = Inr (preds, w2)"
    using generateForecasts_resolves[of 9 "live_env [11, 13, 12, 9, 8, 10, 7]" w1 dip_history]
    by simp
  show ?thesis
    using forecastPrices_primary[OF h l g] dip_widths[OF g]
    by (simp add: width_at_def value_of_def jle_def)
qed

subsection \<open>Histories of finite prices\<close>

lemma foldl_squares_Fin:
  "foldl (\<lambda>s price. jadd s (jmul (jsub price (Fin m)) (jsub price (Fin m)))) (Fin a) (map Fin xs)
   = Fin (a + (\<Sum>x\<leftarrow>xs. (x - m) * (x - m)))"
  by (induction xs arbitrary: a) (simp_all add: jsub_def add.assoc)

lemma sum_list_squares_nonneg: "0 \<le> (\<Sum>x\<leftarrow>xs. (x - m) * (x - m :: real))"
  by (induction xs) simp_all

lemma volatility_finite:
  assumes "xs \<noteq> []"
  shows "\<exists>v. calculateVolatility (map Fin xs) = Fin v \<and> 0 \<le> v"
proof -
  have n: "real (length xs) \<noteq> 0"
    using assms by simp
  have "0 \<le> (\<Sum>x\<leftarrow>xs. (x - sum_list xs / real (length xs)) * (x - sum_list xs / real (length xs)))
           / real (length xs)"
    by (simp add: sum_list_squares_nonneg)
  then show ?thesis
    using n by (simp add: calculateVolatility_def jsum_Fin foldl_squares_Fin Let_def not_less)
qed

lemma trend_loop_Fin:
  assumes "\<forall>i\<in>set is. i < length xs"
  shows "foldl (\<lambda>(sx, sy, sxy, sxx) i.
                      (jadd sx (Fin (real i)),
                       jadd sy (map Fin xs ! i),
                       jadd sxy (jmul (Fin (real i)) (map Fin xs ! i)),
                       jadd sxx (Fin (real i * real i))))
                   (Fin a, Fin b, Fin c, Fin d) is
       = (Fin (a + (\<Sum>i\<leftarrow>is. real i)), Fin (b + (\<Sum>i\<leftarrow>is. xs ! i)),
          Fin (c + (\<Sum>i\<leftarrow>is. real i * xs ! i)), Fin (d + (\<Sum>i\<leftarrow>is. real i * real i)))"
  using assms by (induction "is" arbitrary: a b c d) (simp_all add: add.assoc)

lemma sum_upt_linear: "(\<Sum>i\<leftarrow>[0..<n]. real i) = real n * (real n - 1) / 2"
  by (induction n) (simp_all add: field_simps)

lemma sum_upt_square: "(\<Sum>i\<leftarrow>[0..<n]. real i * real i) = real n * (real n - 1) * (2 * real n - 1) / 6"
  by (induction n) (simp_all add: field_simps)

lemma regression_denominator:
  assumes "2 \<le> n"
  shows "real n * (\<Sum>i\<leftarrow>[0..<n]. real i * real i)
           - (\<Sum>i\<leftarrow>[0..<n]. real i) * (\<Sum>i\<leftarrow>[0..<n]. real i) \<noteq> 0"
proof -
  have "real n * (\<Sum>i\<leftarrow>[0..<n]. real i * real i)
           - (\<Sum>i\<leftarrow>[0..<n]. real i) * (\<Sum>i\<leftarrow>[0..<n]. real i)
        = real n * real n * (real n - 1) * (real n + 1) / 12"
    by (simp add: sum_upt_linear sum_upt_square field_simps)
  moreover have "0 < real n * real n * (real n - 1) * (real n + 1) / 12"
    using assms by simp
  ultimately show ?thesis by simp
qed

lemma trend_finite:
  assumes "2 \<le> length xs"
  shows "\<exists>a b. calculateTrend (map Fin xs) = (Fin a, Fin b)"
proof -
  have n: "real (length xs) \<noteq> 0"
    using assms by auto
  show ?thesis
    using regression_denominator[OF assms] n
    by (simp add: calculateTrend_def trend_loop_Fin jsub_def Let_def)
qed


lemma season_loop_Fin:
  assumes "\<forall>i\<in>set is. i < length xs" "length ss = 7"
  shows "\<exists>ss' cs'. foldl (\<lambda>(sf, cnt) index.
                       (sf[index mod 7 := jadd (sf ! (index mod 7)) (map Fin xs ! index)],
                        cnt[index mod 7 := cnt ! (index mod 7) + 1]))
                   (map Fin ss, cs) is = (map Fin ss', cs') \<and> length ss' = 7"
  using assms
proof (induction "is" arbitrary: ss cs)
  case Nil
  then show ?case by auto
next
  case (Cons i "is")
  have "(map Fin ss)[i mod 7 := jadd (map Fin ss ! (i mod 7)) (map Fin xs ! i)]
      = map Fin (ss[i mod 7 := ss ! (i mod 7) + xs ! i])"
    using Cons.prems by (simp add: map_update)
  moreover have "length (ss[i mod 7 := ss ! (i mod 7) + xs ! i]) = 7"
    using Cons.prems by simp
  ultimately show ?case
    using Cons.IH[of "ss[i mod 7 := ss ! (i mod 7) + xs ! i]" "cs[i mod 7 := cs ! (i mod 7) + 1]"]
      Cons.prems
    by simp
qed

lemma seasonality_finite:
  assumes "xs \<noteq> []" "sum_list xs \<noteq> 0"
  shows "\<exists>fs. calculateSeasonality (map Fin xs) = map Fin fs \<and> length fs = 7"
proof -
  let ?m = "sum_list xs / real (length xs)"
  have m: "?m \<noteq> 0"
    using assms by simp
  have mean: "jdiv (jsum (map Fin xs)) (Fin (real (length xs))) = Fin ?m"
    using assms by (simp add: jsum_Fin)
  have p1: "\<forall>i\<in>set [0..<length xs]. i < length xs"
    by simp
  have p2: "length (replicate 7 (0::real)) = 7"
    by simp
  obtain ss cs where loop: "foldl (\<lambda>(sf, cnt) index.
                       (sf[index mod 7 := jadd (sf ! (index mod 7)) (map Fin xs ! index)],
                        cnt[index mod 7 := cnt ! (index mod 7) + 1]))
                   (replicate 7 (Fin 0), replicate 7 (0::nat)) [0..<length xs]
         = (map Fin ss, cs)" and ss: "length ss = 7"
    using season_loop_Fin[OF p1 p2, of "replicate 7 0", unfolded map_replicate] by blast
  let ?f = "\<lambda>i. (if cs ! i > 0 then (ss ! i / real (cs ! i)) else ?m) / ?m"
  have step: "jdiv (if cs ! i > 0 then jdiv (map Fin ss ! i) (Fin (real (cs ! i))) else Fin ?m)
                (Fin ?m) = Fin (?f i)" if "i \<in> set [0..<7]" for i
    using that ss m by simp
  have "calculateSeasonality (map Fin xs)
      = map (\<lambda>i. jdiv (if cs ! i > 0 then jdiv (map Fin ss ! i) (Fin (real (cs ! i))) else Fin ?m)
                (Fin ?m)) [0..<7]"
    unfolding calculateSeasonality_def Let_def length_map mean loop by simp
  also have "\<dots> = map (\<lambda>i. Fin (?f i)) [0..<7]"
    using step by (rule map_cong[OF refl])
  also have "\<dots> = map Fin (map ?f [0..<7])"
    unfolding map_map comp_def by (rule refl)
  finally show ?thesis
    by (intro exI[where x = "map ?f [0..<7]"]) simp
qed



subsection \<open>Widths of the confidence intervals\<close>

lemma round_half_up_add_int: "round_half_up (of_int q + x) = q + round_half_up x"
  unfolding round_half_up_def by (simp add: add.assoc)

lemma round_half_up_mono: "x \<le> y \<Longrightarrow> round_half_up x \<le> round_half_up y"
  unfolding round_half_up_def by (simp add: floor_mono)

lemma point_finite:
  assumes "length fs = 7" "0 \<le> v" "1 \<le> i"
  shows "\<exists>q. forecast_point d n (Fin a, Fin b) (map Fin fs) (Fin v) i
     = \<lparr>pdate = d,
        predictedPrice = Fin (of_int q),
        confidence = (if i > 30 then Low else if i > 7 then Medium else High),
        lowerBound = Fin (of_int (max 0 (q + round_half_up (- (v * sqrt (of_int i)))))),
        upperBound = Fin (of_int (q + round_half_up (v * sqrt (of_int i))))\<rparr>"
proof -
  let ?q = "round_half_up ((a * (real n + of_int i) + b) * fs ! ((n + nat i) mod 7))"
  have idx: "(n + nat i) mod 7 < length fs"
    using assms(1) by simp
  have pos: "\<not> real_of_int i < 0"
    using assms(3) by simp
  have lo: "round_half_up (of_int ?q - v * sqrt (of_int i)) = ?q + round_half_up (- (v * sqrt (of_int i)))"
    using round_half_up_add_int[of ?q "- (v * sqrt (of_int i))"] by simp
  have up: "round_half_up (of_int ?q + v * sqrt (of_int i)) = ?q + round_half_up (v * sqrt (of_int i))"
    by (rule round_half_up_add_int)
  show ?thesis
    using idx pos
    by (intro exI[where x = ?q])
       (simp add: forecast_point_def Let_def assms(1) jsub_def jmax_def lo up max_def)
qed

lemma width_mono:
  fixes qi qj :: int
  assumes "0 \<le> v" "1 \<le> i" "i \<le> j"
    and "0 \<le> qj + round_half_up (- (v * sqrt (of_int j)))"
  shows "(qi + round_half_up (v * sqrt (of_int i))) - max 0 (qi + round_half_up (- (v * sqrt (of_int i))))
       \<le> (qj + round_half_up (v * sqrt (of_int j))) - max 0 (qj + round_half_up (- (v * sqrt (of_int j))))"
proof -
  have "sqrt (of_int i) \<le> sqrt (of_int j)"
    using assms(3) by simp
  then have m: "v * sqrt (of_int i) \<le> v * sqrt (of_int j)"
    using assms(1) by (rule mult_left_mono)
  have "round_half_up (v * sqrt (of_int i)) \<le> round_half_up (v * sqrt (of_int j))"
    using m by (rule round_half_up_mono)
  moreover have "round_half_up (- (v * sqrt (of_int j))) \<le> round_half_up (- (v * sqrt (of_int i)))"
    using m by (intro round_half_up_mono) simp
  ultimately show ?thesis
    using assms(4) by linarith
qed

text \<open>
  C9 (amended). On the primary path, when \<open>generateForecasts\<close> returns its predictions,
  for a history of at least two finite prices whose sum is not zero (so that every
  prediction is a finite number) and offsets \<open>1 \<le> i < j \<le> horizonDays\<close>: if the lower
  bound at offset \<open>j\<close> is not clamped, that is, the rounded value of
  \<open>predictedPrice - confidenceWidth\<close> is at least 0 there, the confidence interval at
  offset \<open>j\<close> is at least as wide as the one at offset \<open>i\<close>.
\<close>

theorem width_grows_when_not_clamped:
  assumes "generateForecasts e w h k = Inr (preds, w')"
    and "prices h = map Fin xs" and "2 \<le> length xs" and "sum_list xs \<noteq> 0"
    and "1 \<le> i" and "i < j" and "j \<le> k"
    and "jle (Fin 0) (raw_lower h (preds ! nat (j - 1)) j)"
  shows "jle (width (preds ! nat (i - 1))) (width (preds ! nat (j - 1)))"
proof -
  have ne: "xs \<noteq> []"
    using assms(3) by auto
  obtain v where v: "calculateVolatility (prices h) = Fin v" "0 \<le> v"
    using volatility_finite[OF ne] assms(2) by auto
  obtain a b where t: "calculateTrend (prices h) = (Fin a, Fin b)"
    using trend_finite[OF assms(3)] assms(2) by auto
  obtain fs where f: "calculateSeasonality (prices h) = map Fin fs" "length fs = 7"
    using seasonality_finite[OF ne assms(4)] assms(2) by auto
  have ji: "1 \<le> j" "i \<le> k" "i \<le> j"
    using assms(5,6,7) by simp_all
  obtain di where di: "preds ! nat (i - 1)
     = forecast_point di (length (prices h)) (Fin a, Fin b) (map Fin fs) (Fin v) i"
    using nth_generateForecasts[OF assms(1) assms(5) ji(2)] by (auto simp: v t f)
  obtain dj where dj: "preds ! nat (j - 1)
     = forecast_point dj (length (prices h)) (Fin a, Fin b) (map Fin fs) (Fin v) j"
    using nth_generateForecasts[OF assms(1) ji(1) assms(7)] by (auto simp: v t f)
  obtain qi where pi: "preds ! nat (i - 1)
     = \<lparr>pdate = di,
        predictedPrice = Fin (of_int qi),
        confidence = (if i > 30 then Low else if i > 7 then Medium else High),
        lowerBound = Fin (of_int (max 0 (qi + round_half_up (- (v * sqrt (of_int i)))))),
        upperBound = Fin (of_int (qi + round_half_up (v * sqrt (of_int i))))\<rparr>"
    using point_finite[OF f(2) v(2) assms(5), of di "length (prices h)" a b] di by auto
  obtain qj where pj: "preds ! nat (j - 1)
     = \<lparr>pdate = dj,
        predictedPrice = Fin (of_int qj),
        confidence = (if j > 30 then Low else if j > 7 then Medium else High),
        lowerBound = Fin (of_int (max 0 (qj + round_half_up (- (v * sqrt (of_int j)))))),
        upperBound = Fin (of_int (qj + round_half_up (v * sqrt (of_int j))))\<rparr>"
    using point_finite[OF f(2) v(2) ji(1), of dj "length (prices h)" a b] dj by auto
  have "round_half_up (of_int qj - v * sqrt (of_int j)) = qj + round_half_up (- (v * sqrt (of_int j)))"
    using round_half_up_add_int[of qj "- (v * sqrt (of_int j))"] by simp
  then have "0 \<le> real_of_int (qj + round_half_up (- (v * sqrt (of_int j))))"
    using assms(8) ji(1) by (auto simp: raw_lower_def pj v jsub_def jle_def)
  then have raw: "0 \<le> qj + round_half_up (- (v * sqrt (of_int j)))"
    by (simp only: of_int_0_le_iff)
  have "(qi + round_half_up (v * sqrt (of_int i))) - max 0 (qi + round_half_up (- (v * sqrt (of_int i))))
       \<le> (qj + round_half_up (v * sqrt (of_int j))) - max 0 (qj + round_half_up (- (v * sqrt (of_int j))))"
    by (rule width_mono[OF v(2) assms(5) ji(3) raw])
  then have "real_of_int ((qi + round_half_up (v * sqrt (of_int i))) - max 0 (qi + round_half_up (- (v * sqrt (of_int i)))))
       \<le> real_of_int ((qj + round_half_up (v * sqrt (of_int j))) - max 0 (qj + round_half_up (- (v * sqrt (of_int j)))))"
    by (simp only: of_int_le_iff)
  then show ?thesis
    by (simp add: width_def pi pj jsub_def jle_def less_eq_real_def)
qed

lemma dip_forecast:
  "generateForecasts (live_env ps) fresh_world dip_history 9
   = Inr (dip_predictions, tick 9 fresh_world)"
proof -
  have l: "length (prices dip_history) = 7"
    by (simp add: dip_history_def)
  have z: "zone_utc (live_env ps) = utc" "zone_local (live_env ps) = utc"
    by (simp_all add: live_env_def)
  have c: "uint (clock fresh_world k) = 8640000000" for k
    by (simp add: fresh_world_def)
  show ?thesis
    unfolding generateForecasts_resolves[of 9, simplified] c utc_day[OF z] dip_predictions_def l
    by simp
qed

lemma dip_raw_lower_2:
  "jle (Fin 0) (raw_lower dip_history (dip_predictions ! nat (2 - 1)) 2)"
proof -
  have p: "predictedPrice (dip_predictions ! nat (2 - 1)) = Fin 6"
    by (simp add: dip_predictions_def dip_trend dip_seasonality dip_volatility
        forecast_point_def Let_def round_half_up_def upto_rec1)
  have "sqrt 2 \<le> 2"
    by (rule real_le_lsqrt) simp_all
  then have "0 \<le> round_half_up (6 - 2 * sqrt 2)"
    unfolding round_half_up_def by simp
  then have "(0::real) \<le> of_int (round_half_up (6 - 2 * sqrt 2))"
    by (simp only: of_int_0_le_iff)
  then show ?thesis
    using p by (auto simp: raw_lower_def dip_volatility jsub_def jle_def)
qed

theorem width_grows_when_not_clamped_witness:
  "generateForecasts (live_env [11, 13, 12, 9, 8, 10, 7]) fresh_world dip_history 9
     = Inr (dip_predictions, tick 9 fresh_world)
   \<and> prices dip_history = map Fin [11, 13, 12, 9, 8, 10, 7]
   \<and> 2 \<le> length [11, 13, 12, 9, 8, 10, 7 :: real]
   \<and> sum_list [11, 13, 12, 9, 8, 10, 7 :: real] \<noteq> 0
   \<and> (1::int) \<le> 1 \<and> (1::int) < 2 \<and> (2::int) \<le> 9
   \<and> jle (Fin 0) (raw_lower dip_history (dip_predictions ! nat (2 - 1)) 2)
   \<and> jle (width (dip_predictions ! nat (1 - 1))) (width (dip_predictions ! nat (2 - 1)))"
proof -
  have a: "prices dip_history = map Fin [11, 13, 12, 9, 8, 10, 7]"
    by (simp add: dip_history_def)
  have b: "2 \<le> length [11, 13, 12, 9, 8, 10, 7 :: real]"
    by simp
  have c: "sum_list [11, 13, 12, 9, 8, 10, 7 :: real] \<noteq> 0"
    by simp
  have d: "(1::int) \<le> 1" "(1::int) < 2" "(2::int) \<le> 9"
    by simp_all
  show ?thesis
    using width_grows_when_not_clamped[OF dip_forecast a b c d dip_raw_lower_2] a b c
      dip_raw_lower_2 dip_forecast
    by simp
qed

end
